theory Spec2Isabelle
  imports Complex_Main "HOL-Library.Word" "HOL-Library.Sublist"
begin

unbundle bit_operations_syntax

section \<open>Values, errors and the Python string operations the program uses\<close>

text \<open>
  The colour ramp is computed in the program's own arithmetic: binary64 with
  round-to-nearest, ties to even, overflow to infinity and gradual underflow. Resolutions
  and pixel sizes are only passed on and are kept as the quotients the program writes;
  the gamma step of the hillshade is evaluated over the reals. Calls into the raster
  engine that transform pixels (\<open>gdal.Warp\<close>, \<open>gdal.Translate\<close>, \<open>gdal.Polygonize\<close>,
  \<open>BuildOverviews\<close>) are recorded with their arguments and taken to return; what the
  program itself raises is a value of \<open>error\<close>.
\<close>

datatype error =
    ValueError | TypeError | IndexError | AttributeError | UnboundLocalError
  | RuntimeError | SystemExit

definition bindE :: "'e + 'a \<Rightarrow> ('a \<Rightarrow> 'e + 'b) \<Rightarrow> 'e + 'b" where
  "bindE m f = (case m of Inl e \<Rightarrow> Inl e | Inr x \<Rightarrow> f x)"

text \<open>
  A double: a finite value (a real number, the two zeros not told apart), an infinity or
  NaN.
\<close>

datatype pyfloat = Fin real | PosInf | NegInf | NaN

fun isnan :: "pyfloat \<Rightarrow> bool" where
  "isnan NaN = True"
| "isnan _ = False"

subsection \<open>Binary64 arithmetic\<close>

text \<open>\<open>ilog2 x\<close> is the exponent \<open>e\<close> with \<open>2 powi e \<le> x < 2 powi (e + 1)\<close>, for \<open>x > 0\<close>.\<close>

function ilog2 :: "real \<Rightarrow> int" where
  "ilog2 x = (if x \<le> 0 then 0
              else if 2 \<le> x then ilog2 (x / 2) + 1
              else if x < 1 then ilog2 (x * 2) - 1
              else 0)"
  by pat_completeness auto
termination
proof (relation "measure (\<lambda>x. nat \<bar>\<lfloor>log 2 x\<rfloor>\<bar>)", goal_cases)
  case 1
  show ?case by simp
next
  case (2 x)
  then have a: "0 < x" "2 \<le> x" by simp_all
  have "log 2 (x / 2) = log 2 x - 1" using a by (simp add: log_divide)
  then have h: "\<lfloor>log 2 (x / 2)\<rfloor> = \<lfloor>log 2 x\<rfloor> - 1" by simp
  have "1 \<le> log 2 x" using a by (simp add: le_log_iff)
  then have l: "1 \<le> \<lfloor>log 2 x\<rfloor>" by (simp add: le_floor_iff)
  show ?case unfolding in_measure h using l by arith
next
  case (3 x)
  then have a: "0 < x" "x < 1" by simp_all
  have "log 2 (x * 2) = log 2 x + 1" using a by (simp add: log_mult)
  then have h: "\<lfloor>log 2 (x * 2)\<rfloor> = \<lfloor>log 2 x\<rfloor> + 1" by simp
  have "log 2 x < 0" using a by simp
  then have l: "\<lfloor>log 2 x\<rfloor> < 0" by (simp add: floor_less_iff)
  show ?case unfolding in_measure h using l by arith
qed

declare ilog2.simps [simp del]

text \<open>Rounding to the nearest integer, a tie to the even one.\<close>

definition rne :: "real \<Rightarrow> int" where
  "rne x =
     (let f = \<lfloor>x\<rfloor>; d = x - of_int f
      in if d < 1 / 2 then f else if 1 / 2 < d then f + 1 else if even f then f else f + 1)"

text \<open>
  The spacing of the doubles around \<open>x\<close>: 53 significant bits, and the spacing
  \<open>2 powi (- 1074)\<close> of the subnormal numbers below \<open>2 powi (- 1022)\<close>.
\<close>

definition qexp :: "real \<Rightarrow> int" where
  "qexp x = max (ilog2 \<bar>x\<bar>) (- 1022) - 52"

definition quantum :: "real \<Rightarrow> real" where
  "quantum x = 2 powi (qexp x)"

text \<open>The double nearest to a real, before the test for overflow.\<close>

definition round64 :: "real \<Rightarrow> real" where
  "round64 x = (if x = 0 then 0 else of_int (rne (x / quantum x)) * quantum x)"

text \<open>The result of an operation whose exact value is \<open>x\<close>.\<close>

definition f64 :: "real \<Rightarrow> pyfloat" where
  "f64 x =
     (let y = round64 x
      in if 2 ^ 1024 \<le> \<bar>y\<bar> then (if 0 < x then PosInf else NegInf) else Fin y)"

text \<open>The reals that are doubles.\<close>

definition is_f64 :: "real \<Rightarrow> bool" where
  "is_f64 x = (round64 x = x \<and> \<bar>x\<bar> < 2 ^ 1024)"

text \<open>\<open>a + b\<close>, \<open>-a\<close> and \<open>a - b\<close> on doubles.\<close>

fun fadd :: "pyfloat \<Rightarrow> pyfloat \<Rightarrow> pyfloat" where
  "fadd NaN b = NaN"
| "fadd a NaN = NaN"
| "fadd PosInf NegInf = NaN"
| "fadd NegInf PosInf = NaN"
| "fadd PosInf b = PosInf"
| "fadd a PosInf = PosInf"
| "fadd NegInf b = NegInf"
| "fadd a NegInf = NegInf"
| "fadd (Fin x) (Fin y) = f64 (x + y)"

fun fneg :: "pyfloat \<Rightarrow> pyfloat" where
  "fneg (Fin x) = Fin (- x)"
| "fneg PosInf = NegInf"
| "fneg NegInf = PosInf"
| "fneg NaN = NaN"

definition fsub :: "pyfloat \<Rightarrow> pyfloat \<Rightarrow> pyfloat" where
  "fsub a b = fadd a (fneg b)"

text \<open>
  \<open>a * c\<close> and \<open>a / c\<close> for a positive whole-number literal \<open>c\<close> of the program (2, 3
  or 7), which becomes a double without rounding.
\<close>

fun fmul_by :: "pyfloat \<Rightarrow> real \<Rightarrow> pyfloat" where
  "fmul_by (Fin x) c = f64 (x * c)"
| "fmul_by a c = a"

fun fdiv_by :: "pyfloat \<Rightarrow> real \<Rightarrow> pyfloat" where
  "fdiv_by (Fin x) c = f64 (x / c)"
| "fdiv_by a c = a"

text \<open>\<open>a <= b\<close> on doubles; NaN compares false.\<close>

fun fle :: "pyfloat \<Rightarrow> pyfloat \<Rightarrow> bool" where
  "fle NaN b = False"
| "fle a NaN = False"
| "fle NegInf b = True"
| "fle a PosInf = True"
| "fle PosInf b = False"
| "fle a NegInf = False"
| "fle (Fin x) (Fin y) = (x \<le> y)"

text \<open>A double that is finite or plus infinity.\<close>

fun upward :: "pyfloat \<Rightarrow> bool" where
  "upward (Fin x) = is_f64 x"
| "upward PosInf = True"
| "upward a = False"

subsection \<open>Strings\<close>

text \<open>\<open>sub in s\<close> on strings.\<close>

fun py_in :: "string \<Rightarrow> string \<Rightarrow> bool" where
  "py_in sub [] = (sub = [])"
| "py_in sub (x # xs) = (prefix sub (x # xs) \<or> py_in sub xs)"

definition endswith :: "string \<Rightarrow> string \<Rightarrow> bool" where
  "endswith s suf = suffix suf s"

text \<open>
  \<open>s.split(sep)\<close>: the pieces between the non-overlapping occurrences of \<open>sep\<close>, found
  from the left; an empty separator raises \<open>ValueError\<close>. \<open>split_from\<close> scans with the
  separator \<open>c # cs\<close> and the current piece reversed in \<open>acc\<close>.
\<close>

fun split_from :: "char \<Rightarrow> string \<Rightarrow> string \<Rightarrow> string \<Rightarrow> string list" where
  "split_from c cs acc [] = [rev acc]"
| "split_from c cs acc (x # xs) =
     (if prefix (c # cs) (x # xs)
      then rev acc # split_from c cs [] (drop (length cs) xs)
      else split_from c cs (x # acc) xs)"

definition py_split :: "string \<Rightarrow> string \<Rightarrow> error + string list" where
  "py_split s sep =
     (case sep of [] \<Rightarrow> Inl ValueError | c # cs \<Rightarrow> Inr (split_from c cs [] s))"

text \<open>\<open>xs[i]\<close> for an index \<open>i \<ge> 0\<close>.\<close>

definition py_nth :: "'a list \<Rightarrow> nat \<Rightarrow> error + 'a" where
  "py_nth xs i = (if i < length xs then Inr (xs ! i) else Inl IndexError)"

text \<open>\<open>s.rfind(c)\<close> for a one-character \<open>c\<close>: the last index of \<open>c\<close>, or \<open>-1\<close>.\<close>

fun rfind_from :: "char \<Rightarrow> string \<Rightarrow> nat \<Rightarrow> int \<Rightarrow> int" where
  "rfind_from c [] i found = found"
| "rfind_from c (x # xs) i found = rfind_from c xs (i + 1) (if x = c then int i else found)"

definition rfind :: "string \<Rightarrow> char \<Rightarrow> int" where
  "rfind p c = rfind_from c p 0 (- 1)"

text \<open>
  \<open>os.path.splitext\<close> (the standard library's \<open>genericpath._splitext\<close> with the
  separators \<open>\\\<close> and \<open>/\<close> and the extension separator \<open>.\<close>): the extension starts at
  the last dot after the last separator, unless only dots precede it in the file name.
\<close>

function skip_leading_dots :: "string \<Rightarrow> nat \<Rightarrow> nat \<Rightarrow> string \<times> string" where
  "skip_leading_dots p filenameIndex dotIndex =
     (if filenameIndex < dotIndex then
        (if take 1 (drop filenameIndex p) \<noteq> ''.''
         then (take dotIndex p, drop dotIndex p)
         else skip_leading_dots p (filenameIndex + 1) dotIndex)
      else (p, []))"
  by pat_completeness auto
termination
  by (relation "measure (\<lambda>(p, filenameIndex, dotIndex). dotIndex - filenameIndex)") auto

declare skip_leading_dots.simps [simp del]

definition splitext :: "string \<Rightarrow> string \<times> string" where
  "splitext p =
     (let sepIndex = max (rfind p (CHR 0x5C)) (rfind p (CHR ''/''));
          dotIndex = rfind p (CHR ''.'')
      in if dotIndex > sepIndex
         then skip_leading_dots p (nat (sepIndex + 1)) (nat dotIndex)
         else (p, []))"

text \<open>Lines 26-27.\<close>

definition removeExtension :: "string \<Rightarrow> string" where
  "removeExtension filename = fst (splitext filename)"

text \<open>
  \<open>secrets.token_hex(nbytes=6)\<close>: six bytes from the operating system's random source,
  written as twelve lower-case hexadecimal digits. The six bytes are the argument, as one
  48-bit word with the first byte on top.
\<close>

definition hexdigit :: "nat \<Rightarrow> char" where
  "hexdigit n = ''0123456789abcdef'' ! n"

definition token_hex6 :: "48 word \<Rightarrow> string" where
  "token_hex6 w =
     map (\<lambda>i. hexdigit (unat (drop_bit (4 * i) w AND 15))) [11, 10, 9, 8, 7, 6, 5, 4, 3, 2, 1, 0]"

section \<open>Configuration, rasters and the per-file state\<close>

text \<open>
  The list \<open>params.metadata\<close> is one object that the program reaches through two names
  (line 143), so lists of tags live in a store and are named by their address.
\<close>

type_synonym addr = nat
type_synonym store = "addr \<Rightarrow> string list"

text \<open>The entries of the module \<open>params\<close> that the modelled functions read.\<close>

record params =
  filename_prefix :: string
  filename_suffix :: string
  metadata :: addr
  geoserver_epsg :: int
  geoserver_gsd :: real
  geoserver_output_folder :: string
  geoserver_creationOptions :: "string list"
  geoserver_overviews :: bool
  geoserverMDE_gsd :: real
  geoserverMDE_output_folder :: string
  geoserverMDE_creationOptions :: "string list"
  storage_gsd :: "real option"
  storage_output_folder :: string
  storage_creationOptions :: "string list"
  storage_overviews :: bool
  storage_exportJSON :: bool
  storage_previews :: bool
  storageMDE_gsd :: real
  storageMDE_creationOptions :: "string list"
  outlines_enabled :: bool
  outlines_minimum_area :: real
  outlines_buffer :: real
  outlines_simplify :: real
  outlines_output_folder :: string

record datetime =
  year :: nat
  month :: nat
  day :: nat
  hour :: nat
  minute :: nat
  second :: nat

text \<open>\<open>datetime.strptime(text, format)\<close> is a parameter: it returns a date or raises.\<close>

type_synonym strptime = "string \<Rightarrow> string \<Rightarrow> error + datetime"

record band =
  band_colorInterpretation :: int
  band_noDataValue :: "pyfloat option"

text \<open>
  An opened raster: its bands, the two pixel sizes of its geotransform (\<open>gt[1]\<close> and
  \<open>gt[5]\<close>), the authority code of its projection as \<open>int\<close> reads it (\<open>None\<close> when the
  projection has none), its metadata items, and the two percentiles that
  \<open>np.percentile\<close> returns for the first band of its resampled copy under the
  configured style.
\<close>

record dataset =
  bands :: "band list"
  gt1 :: real
  gt5 :: real
  authority_code :: "int option"
  metadataItems :: "string \<rightharpoonup> string"
  percentile_min :: pyfloat
  percentile_max :: pyfloat

text \<open>The attributes of \<open>self\<close> that lines 92-148 assign for a file.\<close>

record self_attrs =
  bandas :: nat
  tieneCanalAlfa :: bool
  noDataValue :: pyfloat
  isMDE :: bool
  mapId :: string
  registroid :: string
  output_name :: string
  outputFilename :: string
  pixelSizeX :: real
  pixelSizeY :: real
  epsg :: int
  date :: "datetime option"
  extra_metadata :: addr

text \<open>\<open>ds.GetRasterBand(n)\<close>, bands numbered from 1; with exceptions enabled a wrong number raises.\<close>

definition GetRasterBand :: "dataset \<Rightarrow> nat \<Rightarrow> error + band" where
  "GetRasterBand ds n =
     (if 1 \<le> n \<and> n \<le> length (bands ds) then Inr (bands ds ! (n - 1)) else Inl RuntimeError)"

text \<open>Lines 99-103: \<open>math.isnan\<close> of \<open>None\<close> raises \<open>TypeError\<close>; NaN becomes 0.\<close>

definition readNoDataValue :: "band \<Rightarrow> error + pyfloat" where
  "readNoDataValue ultimaBanda =
     (case band_noDataValue ultimaBanda of
        None \<Rightarrow> Inl TypeError
      | Some v \<Rightarrow> Inr (if isnan v then Fin 0 else v))"

text \<open>Lines 160-168.\<close>

definition cleanFilename :: "string \<Rightarrow> error + string" where
  "cleanFilename filename = bindE (py_split filename ''-'') (\<lambda>parts. py_nth parts 0)"

text \<open>Lines 170-183; an empty tag is as false as a missing one.\<close>

definition getDate :: "strptime \<Rightarrow> dataset \<Rightarrow> error + datetime option" where
  "getDate strptime file_ds =
     (let droneDeployDate = metadataItems file_ds ''acquisitionStartDate'';
          pix4DMaticDate = metadataItems file_ds ''TIFFTAG_DATETIME''
      in if droneDeployDate \<noteq> None \<and> droneDeployDate \<noteq> Some []
         then bindE (strptime (take (length (the droneDeployDate) - 6) (the droneDeployDate))
                       ''%Y-%m-%dT%H:%M:%S'') (\<lambda>d. Inr (Some d))
         else if pix4DMaticDate \<noteq> None \<and> pix4DMaticDate \<noteq> Some []
         then bindE (strptime (the pix4DMaticDate) ''%Y:%m:%d %H:%M:%S'') (\<lambda>d. Inr (Some d))
         else Inr None)"

text \<open>Lines 110-121: the two identifiers, for a file name, a band count and six random bytes.\<close>

definition resolveIds :: "params \<Rightarrow> string \<Rightarrow> bool \<Rightarrow> 48 word \<Rightarrow> error + string \<times> string" where
  "resolveIds p file mde rnd =
     (let ok = py_in (filename_prefix p) file in
      if mde then
        bindE (if ok
               then bindE (py_split file (filename_prefix p)) (\<lambda>a.
                    bindE (py_nth a 1) (\<lambda>b.
                    bindE (py_split b (filename_suffix p)) (\<lambda>c.
                    bindE (py_nth c 0) (\<lambda>d. Inr (removeExtension d)))))
               else Inr (token_hex6 rnd)) (\<lambda>mapId.
        bindE (if ok
               then bindE (py_split file (filename_prefix p)) (\<lambda>a. py_nth a 0)
               else bindE (py_split file (filename_suffix p)) (\<lambda>a.
                    bindE (py_nth a 0) (\<lambda>b. cleanFilename (removeExtension b)))) (\<lambda>registroid.
        Inr (mapId, registroid)))
      else
        bindE (if ok
               then bindE (py_split file (filename_prefix p)) (\<lambda>a.
                    bindE (py_nth a 1) (\<lambda>b. Inr (removeExtension b)))
               else Inr (token_hex6 rnd)) (\<lambda>mapId.
        bindE (if ok
               then bindE (py_split file ''_'') (\<lambda>a. py_nth a 0)
               else cleanFilename (removeExtension file)) (\<lambda>registroid.
        Inr (mapId, registroid))))"

text \<open>
  Lines 92-148, the state of \<open>self\<close> for one file and the store after the two appends.
  The ground sample distance of lines 133-134 (a float rounded to two decimals) is left
  out.
\<close>

definition processFile ::
  "strptime \<Rightarrow> params \<Rightarrow> store \<Rightarrow> string \<Rightarrow> dataset \<Rightarrow> 48 word \<Rightarrow> error + self_attrs \<times> store" where
  "processFile strptime p st file file_ds rnd =
     (let n = length (bands file_ds) in
      bindE (GetRasterBand file_ds n) (\<lambda>ultimaBanda.
      bindE (readNoDataValue ultimaBanda) (\<lambda>nodata.
      let mde = (n \<le> 2) in
      bindE (resolveIds p file mde rnd) (\<lambda>(mid, rid).
      let out = rid @ filename_prefix p @ mid in
      bindE (case authority_code file_ds of None \<Rightarrow> Inl TypeError | Some c \<Rightarrow> Inr c) (\<lambda>code.
      bindE (getDate strptime file_ds) (\<lambda>d.
      let a = metadata p;
          st1 = st(a := st a @ [''registroId='' @ rid]);
          st2 = st1(a := st1 a @ [''mapId='' @ mid])
      in Inr (\<lparr> bandas = n,
                 tieneCanalAlfa = (band_colorInterpretation ultimaBanda = 6),
                 noDataValue = nodata,
                 isMDE = mde,
                 mapId = mid,
                 registroid = rid,
                 output_name = out,
                 outputFilename = (if \<not> mde then out else out @ filename_suffix p),
                 pixelSizeX = gt1 file_ds,
                 pixelSizeY = - gt5 file_ds,
                 epsg = code,
                 date = d,
                 extra_metadata = a \<rparr>, st2)))))))"

text \<open>
  For the specification's words: the part of a text before the first occurrence of a
  marker (the whole text when the marker does not occur), and a file name with its
  extension stripped and cut at the first dash.
\<close>

fun before_first :: "string \<Rightarrow> string \<Rightarrow> string" where
  "before_first sep [] = []"
| "before_first sep (x # xs) = (if prefix sep (x # xs) then [] else x # before_first sep xs)"

definition spec_registryId :: "string \<Rightarrow> string" where
  "spec_registryId file = takeWhile (\<lambda>c. c \<noteq> CHR ''-'') (removeExtension file)"

text \<open>The twelve-character texts over the lower-case hexadecimal digits.\<close>

definition is_hex12 :: "string \<Rightarrow> bool" where
  "is_hex12 s = (length s = 12 \<and> list_all (\<lambda>c. c \<in> set ''0123456789abcdef'') s)"

section \<open>Exports (\<open>exportStorageFiles\<close>, \<open>exportGeoserverFiles\<close>, \<open>exportOutline\<close>)\<close>

text \<open>The value of a \<open>noData\<close> or \<open>srcNodata\<close> argument: the string \<open>'none'\<close> or a number.\<close>

datatype nodata_arg = NoneStr | NoDataVal pyfloat

text \<open>
  The keyword arguments of a \<open>gdal.Warp\<close> call; the reference systems and the source
  nodata are \<open>None\<close> when the call does not pass them.
\<close>

record warp_kwargs =
  warp_xRes :: real
  warp_yRes :: real
  srcSRS :: "int option"
  dstSRS :: "int option"
  srcNodata :: "nodata_arg option"

record translate_kwargs =
  bandList :: "nat list"
  xRes :: real
  yRes :: real
  creationOptions :: "string list"
  metadataOptions :: "string list"
  noData :: nodata_arg
  maskBand :: "nat option"

text \<open>The raster an export reads: the opened file, or the result of warping it.\<close>

datatype raster = Opened dataset | Warped dataset warp_kwargs

fun raster_source :: "raster \<Rightarrow> dataset" where
  "raster_source (Opened d) = d"
| "raster_source (Warped d kw) = d"

text \<open>
  The vector library, over any type \<open>'g\<close> of geometries: the result code of
  \<open>ImportFromEPSG\<close>, the polygons \<open>gdal.Polygonize\<close> finds in the mask band of a raster,
  and the geometry operations of lines 351-382 (\<open>collect\<close> is the multi-polygon built by
  \<open>AddGeometryDirectly\<close>, \<open>wkt\<close> is \<open>str\<close> of a geometry).
\<close>

record 'g ogr =
  ImportFromEPSG :: "int \<Rightarrow> int"
  Polygonize :: "raster \<Rightarrow> 'g list"
  GetArea :: "'g \<Rightarrow> real"
  collect :: "'g list \<Rightarrow> 'g"
  Buffer :: "'g \<Rightarrow> real \<Rightarrow> 'g"
  MakeValid :: "'g \<Rightarrow> 'g"
  IsValid :: "'g \<Rightarrow> bool"
  Simplify :: "'g \<Rightarrow> real \<Rightarrow> 'g"
  wkt :: "'g \<Rightarrow> string"

text \<open>A feature of the outline layer (its \<open>gsd\<close> field is left out with the rounded GSD).\<close>

record 'g feature =
  geometry :: 'g
  field_map_id :: string
  field_registro_id :: string
  field_date :: "datetime option"

text \<open>
  Lines 292-419. The result is the list of the features that \<open>layer.CreateFeature\<close>
  puts into the final layer. A warped raster has the bands of its source.
\<close>

definition exportOutline ::
  "'g ogr \<Rightarrow> params \<Rightarrow> self_attrs \<Rightarrow> raster \<Rightarrow> error + 'g feature list" where
  "exportOutline g p self file_ds =
     (if ImportFromEPSG g (geoserver_epsg p) \<noteq> 0 then Inl RuntimeError
      else
        bindE (GetRasterBand (raster_source file_ds) 4) (\<lambda>maskBand.
        let biggerGeoms =
              filter (\<lambda>geom. GetArea g geom > outlines_minimum_area p) (Polygonize g file_ds);
            mergedGeom = MakeValid g (Buffer g (collect g biggerGeoms) (outlines_buffer p))
        in if IsValid g mergedGeom \<noteq> True then Inr []
           else
             (let simplifyGeom = Simplify g mergedGeom (outlines_simplify p)
              in if wkt g simplifyGeom = ''POLYGON EMPTY'' then Inr []
                 else Inr [\<lparr> geometry = simplifyGeom,
                             field_map_id = mapId self,
                             field_registro_id = registroid self,
                             field_date = date self \<rparr>])))"

text \<open>What an export does, in order: the calls it makes with their arguments.\<close>

datatype 'g gdal_call =
    Warp string warp_kwargs
  | Translate string raster translate_kwargs
  | BuildOverviews
  | Outline "'g feature list"
  | ExportJSON string
  | Preview string "pyfloat list option"

section \<open>Elevation colour ramp (\<open>getMdeColorValues\<close>) and hillshade gamma\<close>

text \<open>
  The \<open>while (cont < 7)\<close> loop of lines 491-501: \<open>colorValues.append(trimmedMin)\<close>,
  then \<open>trimmedMin += per\<close>, then the extra increments of the iterations 1, 3, 4 and 5.
\<close>

function colorLoop :: "pyfloat \<Rightarrow> nat \<Rightarrow> pyfloat \<Rightarrow> pyfloat list \<Rightarrow> pyfloat list" where
  "colorLoop per cont trimmedMin colorValues =
     (if cont < 7 then
        (let colorValues' = colorValues @ [trimmedMin];
             t1 = fadd trimmedMin per;
             t2 = (if cont = 1 then fadd t1 per
                   else if cont = 3 then fadd t1 (fmul_by per 3)
                   else if cont = 4 \<or> cont = 5 then fadd t1 (fmul_by per 2)
                   else t1)
         in colorLoop per (cont + 1) t2 colorValues')
      else colorValues)"
  by pat_completeness auto
termination
  by (relation "measure (\<lambda>(per, cont, trimmedMin, colorValues). 7 - cont)") auto

declare colorLoop.simps [simp del]

text \<open>Line 489, \<open>per = ((trimmedMax / 2) - (trimmedMin / 2)) / 7\<close>.\<close>

definition per_of :: "pyfloat \<Rightarrow> pyfloat \<Rightarrow> pyfloat" where
  "per_of trimmedMin trimmedMax =
     fdiv_by (fsub (fdiv_by trimmedMax 2) (fdiv_by trimmedMin 2)) 7"

text \<open>Lines 489-503, from the two percentiles on.\<close>

definition mdeColorValues :: "pyfloat \<Rightarrow> pyfloat \<Rightarrow> pyfloat list" where
  "mdeColorValues trimmedMin trimmedMax =
     colorLoop (per_of trimmedMin trimmedMax) 0 trimmedMin []"

text \<open>Lines 486-503: a NaN percentile raises \<open>RuntimeError\<close>.\<close>

definition getMdeColorValues_from :: "pyfloat \<Rightarrow> pyfloat \<Rightarrow> error + pyfloat list" where
  "getMdeColorValues_from trimmedMin trimmedMax =
     (if isnan trimmedMax \<or> isnan trimmedMin then Inl RuntimeError
      else Inr (mdeColorValues trimmedMin trimmedMax))"

text \<open>
  For the specification's words: the step and the seven breakpoints as real numbers,
  \<open>trimmedMin + k * step\<close> for \<open>k = 0, 1, 3, 4, 8, 11, 14\<close>; and the pairs of percentiles
  for which no operation of lines 489-501 rounds, that is, every exact intermediate
  value is a double.
\<close>

definition spec_step :: "real \<Rightarrow> real \<Rightarrow> real" where
  "spec_step trimmedMin trimmedMax = ((trimmedMax / 2) - (trimmedMin / 2)) / 7"

definition spec_breakpoints :: "real \<Rightarrow> real \<Rightarrow> real list" where
  "spec_breakpoints trimmedMin trimmedMax =
     map (\<lambda>k. trimmedMin + k * spec_step trimmedMin trimmedMax) [0, 1, 3, 4, 8, 11, 14]"

definition ramp_exact :: "real \<Rightarrow> real \<Rightarrow> bool" where
  "ramp_exact lo hi =
     (let p = spec_step lo hi
      in list_all is_f64
           [hi / 2, lo / 2, hi / 2 - lo / 2, p, p * 3, p * 2,
            lo + p, lo + 2 * p, lo + 3 * p, lo + 4 * p, lo + 5 * p, lo + 8 * p,
            lo + 9 * p, lo + 11 * p, lo + 12 * p, lo + 14 * p])"

text \<open>
  The cast \<open>uint8(x)\<close> of a float array: the fraction is dropped (towards zero) and the
  integer is taken modulo 256.
\<close>

definition uint8 :: "real \<Rightarrow> 8 word" where
  "uint8 x = word_of_int (if 0 \<le> x then \<lfloor>x\<rfloor> else \<lceil>x\<rceil>)"

text \<open>Line 598, \<open>uint8(((A/255)*(0.5))*255)\<close>, for one pixel \<open>A\<close> of the 8-bit hillshade.\<close>

definition gammaHillshade :: "8 word \<Rightarrow> 8 word" where
  "gammaHillshade A = uint8 (((real (unat A) / 255) * (0.5)) * 255)"

text \<open>
  The specification's formula for the same step, \<open>round(input/255 \<times> 0.5 \<times> 255)\<close>, with
  Python's \<open>round\<close> (a tie goes to the even neighbour).
\<close>

definition py_round :: "real \<Rightarrow> int" where
  "py_round x =
     (let f = \<lfloor>x\<rfloor>; d = x - of_int f
      in if d < 1 / 2 then f else if 1 / 2 < d then f + 1 else if even f then f else f + 1)"

definition spec_gamma :: "8 word \<Rightarrow> int" where
  "spec_gamma A = py_round (real (unat A) / 255 * 0.5 * 255)"

section \<open>Storage and tile-server exports, and the batch (\<open>processTifs\<close>)\<close>

text \<open>
  An export returns the calls it has made, in order, and the error that stopped it, if
  one did.
\<close>

text \<open>
  Lines 622-654 with 529-620. The preview of an elevation raster first resamples the
  raster (the \<open>gdal.Warp\<close> of line 544, without reference systems) and then needs the
  colour ramp, which raises on a NaN percentile. The calls of lines 556-648 (the two
  renderings, the gamma step, the blend and the final translate) are recorded as one
  \<open>Preview\<close> with the ramp.
\<close>

definition resample_args :: warp_kwargs where
  "resample_args =
     \<lparr> warp_xRes = 3 / 10, warp_yRes = 3 / 10, srcSRS = None, dstSRS = None,
       srcNodata = None \<rparr>"

definition exportStoragePreview ::
  "params \<Rightarrow> self_attrs \<Rightarrow> dataset \<Rightarrow> 'g gdal_call list \<times> error option" where
  "exportStoragePreview p self file_ds =
     (if isMDE self
      then (case getMdeColorValues_from (percentile_min file_ds) (percentile_max file_ds) of
              Inl e \<Rightarrow> ([Warp ''mde_compress.tif'' resample_args], Some e)
            | Inr colorValues \<Rightarrow>
                ([Warp ''mde_compress.tif'' resample_args,
                  Preview (outputFilename self @ ''.jpg'') (Some colorValues)], None))
      else ([Preview (outputFilename self @ ''.jpg'') None], None))"

text \<open>Lines 248-290.\<close>

definition exportStorageFiles ::
  "params \<Rightarrow> store \<Rightarrow> self_attrs \<Rightarrow> dataset \<Rightarrow> 'g gdal_call list \<times> error option" where
  "exportStorageFiles p st self file_ds =
     (let gdaloutput = storage_output_folder p @ ''/'' @ outputFilename self @ ''.tif'';
          gsd_set = (storage_gsd p \<noteq> None \<and> storage_gsd p \<noteq> Some 0);
          kwargs = \<lparr> bandList = (if \<not> isMDE self then [1, 2, 3] else [1]),
                     xRes = (if \<not> isMDE self
                             then (if gsd_set then the (storage_gsd p) / 100 else pixelSizeX self)
                             else storageMDE_gsd p / 100),
                     yRes = (if \<not> isMDE self
                             then (if gsd_set then the (storage_gsd p) / 100 else pixelSizeY self)
                             else storageMDE_gsd p / 100),
                     creationOptions = (if \<not> isMDE self then storage_creationOptions p
                                        else storageMDE_creationOptions p),
                     metadataOptions = st (extra_metadata self),
                     noData = (if tieneCanalAlfa self then NoneStr
                               else NoDataVal (noDataValue self)),
                     maskBand = (if \<not> isMDE self then Some 4 else None) \<rparr>;
          calls = [Translate gdaloutput (Opened file_ds) kwargs]
                  @ (if storage_overviews p then [BuildOverviews] else [])
                  @ (if storage_exportJSON p \<and> \<not> isMDE self
                     then [ExportJSON (outputFilename self @ ''.json'')] else [])
      in if storage_previews p
         then (case exportStoragePreview p self file_ds of
                 (preview, err) \<Rightarrow> (calls @ preview, err))
         else (calls, None))"

text \<open>Lines 194-211: the test for the warp and its arguments.\<close>

definition warp_needed :: "params \<Rightarrow> self_attrs \<Rightarrow> bool" where
  "warp_needed p self = (epsg self \<noteq> geoserver_epsg p)"

definition warp_args :: "params \<Rightarrow> self_attrs \<Rightarrow> warp_kwargs" where
  "warp_args p self =
     \<lparr> warp_xRes = geoserver_gsd p / 100,
       warp_yRes = geoserver_gsd p / 100,
       srcSRS = Some (epsg self),
       dstSRS = Some (geoserver_epsg p),
       srcNodata = Some (if tieneCanalAlfa self then NoneStr
                         else NoDataVal (noDataValue self)) \<rparr>"

text \<open>Lines 185-246.\<close>

definition exportGeoserverFiles ::
  "'g ogr \<Rightarrow> params \<Rightarrow> store \<Rightarrow> self_attrs \<Rightarrow> dataset \<Rightarrow> string
     \<Rightarrow> 'g gdal_call list \<times> error option" where
  "exportGeoserverFiles g p st self file_ds file =
     (let warped = (if warp_needed p self then [Warp file (warp_args p self)] else []);
          gdaloutput = (if \<not> isMDE self then geoserver_output_folder p
                        else geoserverMDE_output_folder p)
                       @ ''/'' @ outputFilename self @ ''.tif'';
          kwargs = \<lparr> bandList = (if \<not> isMDE self then [1, 2, 3] else [1]),
                     xRes = (if \<not> isMDE self then geoserver_gsd p / 100
                             else geoserverMDE_gsd p / 100),
                     yRes = (if \<not> isMDE self then geoserver_gsd p / 100
                             else geoserverMDE_gsd p / 100),
                     creationOptions = (if \<not> isMDE self then geoserver_creationOptions p
                                        else geoserverMDE_creationOptions p),
                     metadataOptions = st (extra_metadata self),
                     noData = (if tieneCanalAlfa self then NoneStr
                               else NoDataVal (noDataValue self)),
                     maskBand = (if \<not> isMDE self then Some 4 else None) \<rparr>;
          fileToConvert = (if warp_needed p self then Warped file_ds (warp_args p self)
                           else Opened file_ds);
          rest = [Translate gdaloutput fileToConvert kwargs]
                 @ (if geoserver_overviews p then [BuildOverviews] else [])
      in if outlines_enabled p \<and> \<not> isMDE self
         then (case exportOutline g p self fileToConvert of
                 Inl e \<Rightarrow> (warped, Some e)
               | Inr fs \<Rightarrow> (warped @ [Outline fs] @ rest, None))
         else (warped @ rest, None))"

text \<open>
  A file of the input folder: its name, the raster \<open>gdal.Open\<close> returns for it (\<open>None\<close>
  when it raises) and the six bytes the random source gives while it is processed.
\<close>

record input_file =
  file_name :: string
  file_raster :: "dataset option"
  file_random :: "48 word"

text \<open>The local variable \<open>file_ds\<close> of \<open>processTifs\<close>: not yet assigned, \<open>None\<close>, or a raster.\<close>

datatype file_ds_var = Unbound | NoneVal | Obj dataset

text \<open>Lines 84-90: only a name that ends in \<open>.tif\<close> or \<open>.tiff\<close> is opened.\<close>

definition open_file :: "input_file \<Rightarrow> file_ds_var \<Rightarrow> error + file_ds_var" where
  "open_file f file_ds =
     (if endswith (file_name f) ''.tif'' \<or> endswith (file_name f) ''.tiff''
      then (case file_raster f of None \<Rightarrow> Inl SystemExit | Some d \<Rightarrow> Inr (Obj d))
      else Inr file_ds)"

text \<open>Line 95, the first read of \<open>file_ds\<close>.\<close>

definition read_file_ds :: "file_ds_var \<Rightarrow> error + dataset" where
  "read_file_ds file_ds =
     (case file_ds of
        Unbound \<Rightarrow> Inl UnboundLocalError
      | NoneVal \<Rightarrow> Inl AttributeError
      | Obj d \<Rightarrow> Inr d)"

text \<open>
  Lines 80-158. The body after line 91 runs for every file, also one that is no
  \<open>.tif\<close>: then \<open>file_ds\<close> is what the previous iteration left. The result is the
  store, the calls of the exports file by file, and the error that ended the batch, if
  one did.
\<close>

fun processTifs ::
  "strptime \<Rightarrow> 'g ogr \<Rightarrow> params \<Rightarrow> input_file list \<Rightarrow> file_ds_var \<Rightarrow> store
     \<Rightarrow> 'g gdal_call list list \<Rightarrow> store \<times> 'g gdal_call list list \<times> error option" where
  "processTifs strptime g p [] file_ds st done = (st, done, None)"
| "processTifs strptime g p (f # files) file_ds st done =
     (case bindE (open_file f file_ds) read_file_ds of
        Inl e \<Rightarrow> (st, done, Some e)
      | Inr d \<Rightarrow>
          (case processFile strptime p st (file_name f) d (file_random f) of
             Inl e \<Rightarrow> (st, done, Some e)
           | Inr (self, st1) \<Rightarrow>
               (case exportStorageFiles p st1 self d of
                  (storage, Some e) \<Rightarrow> (st1, done @ [storage], Some e)
                | (storage, None) \<Rightarrow>
                    (case exportGeoserverFiles g p st1 self d (file_name f) of
                       (geoserver, Some e) \<Rightarrow> (st1, done @ [storage @ geoserver], Some e)
                     | (geoserver, None) \<Rightarrow>
                         processTifs strptime g p files NoneVal st1
                           (done @ [storage @ geoserver])))))"

text \<open>The metadata tags that the \<open>gdal.Translate\<close> calls of a file's exports carry.\<close>

fun tags_of_call :: "'g gdal_call \<Rightarrow> string list list" where
  "tags_of_call (Translate out src kwargs) = [metadataOptions kwargs]"
| "tags_of_call _ = []"

definition stamped_tags :: "'g gdal_call list \<Rightarrow> string list list" where
  "stamped_tags calls = concat (map tags_of_call calls)"

fun is_outline :: "'g gdal_call \<Rightarrow> bool" where
  "is_outline (Outline fs) = True"
| "is_outline _ = False"

text \<open>A warp into another reference system: a \<open>gdal.Warp\<close> call that passes \<open>dstSRS\<close>.\<close>

fun is_reprojection :: "'g gdal_call \<Rightarrow> bool" where
  "is_reprojection (Warp f kw) = (dstSRS kw \<noteq> None)"
| "is_reprojection _ = False"

fun is_warp :: "'g gdal_call \<Rightarrow> bool" where
  "is_warp (Warp f kw) = True"
| "is_warp _ = False"

section \<open>A configuration and rasters to run the program on\<close>

definition example_params :: params where
  "example_params =
     \<lparr> filename_prefix = ''_ortho_'',
       filename_suffix = ''_mde'',
       metadata = 0,
       geoserver_epsg = 3857,
       geoserver_gsd = 20,
       geoserver_output_folder = ''out/geoserver'',
       geoserver_creationOptions = [],
       geoserver_overviews = True,
       geoserverMDE_gsd = 50,
       geoserverMDE_output_folder = ''out/mde'',
       geoserverMDE_creationOptions = [],
       storage_gsd = None,
       storage_output_folder = ''out/storage'',
       storage_creationOptions = [],
       storage_overviews = False,
       storage_exportJSON = True,
       storage_previews = True,
       storageMDE_gsd = 50,
       storageMDE_creationOptions = [],
       outlines_enabled = True,
       outlines_minimum_area = 10,
       outlines_buffer = 0,
       outlines_simplify = 1,
       outlines_output_folder = ''out/outlines'' \<rparr>"

text \<open>A band with the colour interpretation \<open>c\<close> and the nodata value \<open>v\<close>.\<close>

definition mk_band :: "int \<Rightarrow> pyfloat option \<Rightarrow> band" where
  "mk_band c v = \<lparr> band_colorInterpretation = c, band_noDataValue = v \<rparr>"

text \<open>A raster with the given bands and EPSG code, 5 cm pixels, no tags.\<close>

definition mk_dataset :: "band list \<Rightarrow> int option \<Rightarrow> dataset" where
  "mk_dataset bs code =
     \<lparr> bands = bs, gt1 = 5 / 100, gt5 = - (5 / 100), authority_code = code,
       metadataItems = Map.empty, percentile_min = Fin 0, percentile_max = Fin 14 \<rparr>"

definition rgba_raster :: dataset where
  "rgba_raster =
     mk_dataset [mk_band 3 (Some (Fin 0)), mk_band 4 (Some (Fin 0)), mk_band 5 (Some (Fin 0)),
                 mk_band 6 (Some (Fin 0))] (Some 4326)"

definition dem_raster :: dataset where
  "dem_raster = mk_dataset [mk_band 1 (Some (Fin (- 9999)))] (Some 4326)"

text \<open>A date parser that rejects every text, and a vector library over one-point geometries.\<close>

definition no_strptime :: strptime where
  "no_strptime text fmt = Inl ValueError"

definition unit_ogr :: "unit ogr" where
  "unit_ogr =
     \<lparr> ImportFromEPSG = (\<lambda>code. 0),
       Polygonize = (\<lambda>r. [(), ()]),
       GetArea = (\<lambda>geom. 25),
       collect = (\<lambda>geoms. ()),
       Buffer = (\<lambda>geom dist. ()),
       MakeValid = (\<lambda>geom. ()),
       IsValid = (\<lambda>geom. True),
       Simplify = (\<lambda>geom tol. ()),
       wkt = (\<lambda>geom. ''MULTIPOLYGON (((0 0,0 5,5 5,5 0,0 0)))'') \<rparr>"

definition mercator_raster :: dataset where
  "mercator_raster = mk_dataset [mk_band 1 (Some (Fin (- 9999)))] (Some 3857)"

definition nan_raster :: dataset where
  "nan_raster = mk_dataset [mk_band 1 (Some NaN)] (Some 4326)"

definition unset_nodata_raster :: dataset where
  "unset_nodata_raster = mk_dataset [mk_band 1 None] (Some 4326)"

definition file_a :: input_file where
  "file_a = \<lparr> file_name = ''a.tif'', file_raster = Some rgba_raster,
              file_random = 0x0123456789ab \<rparr>"

definition file_b :: input_file where
  "file_b = \<lparr> file_name = ''b.tif'', file_raster = Some rgba_raster,
              file_random = 0xffeeddccbbaa \<rparr>"

text \<open>The features that the outline exports among some calls have written.\<close>

fun features_of_call :: "'g gdal_call \<Rightarrow> 'g feature list" where
  "features_of_call (Outline fs) = fs"
| "features_of_call _ = []"

definition outline_features :: "'g gdal_call list \<Rightarrow> 'g feature list" where
  "outline_features calls = concat (map features_of_call calls)"

text \<open>
  The state of \<open>self\<close> for the orthomosaic \<open>REG42_ortho_mapA.tif\<close> and for the elevation
  raster \<open>terrain.tif\<close> under this configuration.
\<close>

definition rgba_self :: self_attrs where
  "rgba_self =
     \<lparr> bandas = 4, tieneCanalAlfa = True, noDataValue = Fin 0, isMDE = False,
       mapId = ''mapA'', registroid = ''REG42'', output_name = ''REG42_ortho_mapA'',
       outputFilename = ''REG42_ortho_mapA'', pixelSizeX = 5 / 100, pixelSizeY = 5 / 100,
       epsg = 4326, date = None, extra_metadata = 0 \<rparr>"

definition terrain_self :: self_attrs where
  "terrain_self =
     \<lparr> bandas = 1, tieneCanalAlfa = False, noDataValue = Fin 0, isMDE = True,
       mapId = ''0123456789ab'', registroid = ''terrain'',
       output_name = ''terrain_ortho_0123456789ab'',
       outputFilename = ''terrain_ortho_0123456789ab_mde'',
       pixelSizeX = 5 / 100, pixelSizeY = 5 / 100,
       epsg = 4326, date = None, extra_metadata = 0 \<rparr>"

section \<open>Properties of binary64 rounding\<close>

lemma p2_suc: "(2::real) powi (e + 1) = 2 * 2 powi e"
  by (simp add: power_int_add)

lemma p2_pred: "(2::real) powi (e - 1) = 2 powi e / 2"
  by (simp add: power_int_diff)

lemma p2_less_imp: "(2::real) powi a < 2 powi b \<Longrightarrow> a < b"
proof (rule ccontr)
  assume l: "(2::real) powi a < 2 powi b" and "\<not> a < b"
  then have "b \<le> a" by simp
  then have "(2::real) powi b \<le> 2 powi a" by (rule power_int_increasing) simp
  with l show False by simp
qed

lemma ilog2_bounds:
  "0 < x \<Longrightarrow> 2 powi (ilog2 x) \<le> x \<and> x < 2 powi (ilog2 x + 1)"
proof (induction x rule: ilog2.induct)
  case (1 x)
  show ?case
  proof (cases "2 \<le> x")
    case True
    then have e: "ilog2 x = ilog2 (x / 2) + 1" using 1(3) by (subst ilog2.simps) simp
    have "2 powi (ilog2 (x / 2)) \<le> x / 2 \<and> x / 2 < 2 powi (ilog2 (x / 2) + 1)"
      using 1(1) [OF _ True] 1(3) by simp
    then have "2 * 2 powi (ilog2 (x / 2)) \<le> x \<and> x < 2 * 2 powi (ilog2 (x / 2) + 1)"
      by linarith
    then show ?thesis unfolding e p2_suc [of "ilog2 (x / 2) + 1"] p2_suc [of "ilog2 (x / 2)"]
      by linarith
  next
    case False
    note lt2 = this
    show ?thesis
    proof (cases "x < 1")
      case True
      then have e: "ilog2 x = ilog2 (x * 2) - 1"
        using 1(3) lt2 by (subst ilog2.simps) simp
      have "2 powi (ilog2 (x * 2)) \<le> x * 2 \<and> x * 2 < 2 powi (ilog2 (x * 2) + 1)"
        using 1(2) [OF _ lt2 True] 1(3) by simp
      then have "2 powi (ilog2 (x * 2)) / 2 \<le> x \<and> x < 2 powi (ilog2 (x * 2))"
        unfolding p2_suc by linarith
      moreover have "ilog2 (x * 2) - 1 + 1 = ilog2 (x * 2)" by simp
      ultimately show ?thesis unfolding e p2_pred by simp
    next
      case False
      then have e: "ilog2 x = 0" using 1(3) lt2 by (subst ilog2.simps) simp
      show ?thesis unfolding e using False lt2 by simp
    qed
  qed
qed

lemma ilog2_unique:
  assumes "0 < x" and "2 powi e \<le> x" and "x < 2 powi (e + 1)"
  shows "ilog2 x = e"
proof -
  have b: "2 powi (ilog2 x) \<le> x" "x < 2 powi (ilog2 x + 1)"
    using ilog2_bounds [OF assms(1)] by simp_all
  have "(2::real) powi e < 2 powi (ilog2 x + 1)" using assms(2) b(2) by linarith
  then have 1: "e < ilog2 x + 1" by (rule p2_less_imp)
  have "(2::real) powi (ilog2 x) < 2 powi (e + 1)" using assms(3) b(1) by linarith
  then have 2: "ilog2 x < e + 1" by (rule p2_less_imp)
  from 1 2 show ?thesis by linarith
qed

lemma ilog2_mono:
  assumes "0 < x" and "x \<le> y"
  shows "ilog2 x \<le> ilog2 y"
proof -
  have "0 < y" using assms by linarith
  have "(2::real) powi (ilog2 x) \<le> x" using ilog2_bounds [OF assms(1)] by simp
  also have "x \<le> y" by fact
  also have "y < 2 powi (ilog2 y + 1)" using ilog2_bounds [OF \<open>0 < y\<close>] by simp
  finally have "ilog2 x < ilog2 y + 1" by (rule p2_less_imp)
  then show ?thesis by linarith
qed

lemma rne_of_int [simp]: "rne (of_int k) = k"
  by (simp add: rne_def)

lemma rne_floor: "rne x = \<lfloor>x\<rfloor> \<or> rne x = \<lfloor>x\<rfloor> + 1"
  by (simp add: rne_def Let_def)

lemma rne_mono: "x \<le> y \<Longrightarrow> rne x \<le> rne y"
proof -
  assume xy: "x \<le> y"
  have fxy: "\<lfloor>x\<rfloor> \<le> \<lfloor>y\<rfloor>" using xy by (rule floor_mono)
  show ?thesis
  proof (cases "\<lfloor>x\<rfloor> = \<lfloor>y\<rfloor>")
    case True
    then show ?thesis using xy by (auto simp: rne_def Let_def)
  next
    case False
    then have "\<lfloor>x\<rfloor> + 1 \<le> \<lfloor>y\<rfloor>" using fxy by linarith
    then show ?thesis using rne_floor [of x] rne_floor [of y] by linarith
  qed
qed

lemma rne_minus: "rne (- x) = - rne x"
proof (cases "x = of_int \<lfloor>x\<rfloor>")
  case True
  then obtain k where "x = of_int k" by blast
  then have "- x = of_int (- k)" by simp
  then show ?thesis using \<open>x = of_int k\<close> by (simp only: rne_of_int)
next
  case False
  then have lt: "of_int \<lfloor>x\<rfloor> < x"
    using of_int_floor_le [of x] by linarith
  have ub: "x < of_int \<lfloor>x\<rfloor> + 1" by linarith
  have c: "of_int (- \<lfloor>x\<rfloor> - 1) = - of_int \<lfloor>x\<rfloor> - (1::real)" by simp
  have f1: "of_int (- \<lfloor>x\<rfloor> - 1) \<le> - x" unfolding c using ub by linarith
  have f2: "- x < of_int (- \<lfloor>x\<rfloor> - 1) + 1" unfolding c using lt by linarith
  have f: "\<lfloor>- x\<rfloor> = - \<lfloor>x\<rfloor> - 1"
    using f1 f2 by (rule floor_unique)
  have d: "- x - of_int (- \<lfloor>x\<rfloor> - 1) = 1 - (x - of_int \<lfloor>x\<rfloor>)" by simp
  show ?thesis
    unfolding rne_def Let_def f d by auto
qed

lemma quantum_qexp: "quantum x = 2 powi (qexp x)"
  by (simp add: quantum_def)

lemma quantum_pos: "0 < quantum x"
  by (simp add: quantum_def)

lemma quantum_minus: "quantum (- x) = quantum x"
  by (simp add: quantum_def qexp_def)

lemma round64_minus: "round64 (- x) = - round64 x"
proof (cases "x = 0")
  case True
  then show ?thesis by (simp add: round64_def)
next
  case False
  have "rne (- x / quantum x) = - rne (x / quantum x)"
    using rne_minus [of "x / quantum x"] by simp
  then show ?thesis using False by (simp add: round64_def quantum_minus)
qed

lemma grid_le:
  assumes "x \<le> of_int k * quantum x"
  shows "round64 x \<le> of_int k * quantum x"
proof (cases "x = 0")
  case True
  then show ?thesis using assms by (simp add: round64_def)
next
  case False
  have "x / quantum x \<le> of_int k"
    using assms quantum_pos [of x] by (simp add: pos_divide_le_eq)
  then have "rne (x / quantum x) \<le> k" using rne_mono [of "x / quantum x" "of_int k"] by simp
  then have "(of_int (rne (x / quantum x)) :: real) \<le> of_int k" by simp
  then show ?thesis
    using False quantum_pos [of x] by (simp add: round64_def)
qed

lemma grid_ge:
  assumes "of_int k * quantum x \<le> x"
  shows "of_int k * quantum x \<le> round64 x"
proof (cases "x = 0")
  case True
  then show ?thesis using assms by (simp add: round64_def)
next
  case False
  have "of_int k \<le> x / quantum x"
    using assms quantum_pos [of x] by (simp add: pos_le_divide_eq)
  then have "k \<le> rne (x / quantum x)" using rne_mono [of "of_int k" "x / quantum x"] by simp
  then have "(of_int k :: real) \<le> of_int (rne (x / quantum x))" by simp
  then show ?thesis
    using False quantum_pos [of x] by (simp add: round64_def)
qed

lemma round64_nonneg: "0 \<le> x \<Longrightarrow> 0 \<le> round64 x"
  using grid_ge [of 0 x] by simp

lemma round64_nonpos: "x \<le> 0 \<Longrightarrow> round64 x \<le> 0"
  using grid_le [of x 0] by simp

lemma p2_grid:
  assumes "qe \<le> b"
  shows "(2::real) powi b = of_int (2 ^ nat (b - qe)) * 2 powi qe"
proof -
  have "(2::real) powi b = 2 powi (b - qe) * 2 powi qe"
    by (simp flip: power_int_add)
  also have "(2::real) powi (b - qe) = 2 ^ nat (b - qe)"
    using assms by (simp add: power_int_nonneg_exp)
  finally show ?thesis by simp
qed

lemma round64_le_p2:
  assumes "x \<le> 2 powi b" and "qexp x \<le> b"
  shows "round64 x \<le> 2 powi b"
  using grid_le [of x "2 ^ nat (b - qexp x)"] assms p2_grid [OF assms(2)]
  by (simp add: quantum_qexp)

lemma round64_ge_p2:
  assumes "2 powi a \<le> x" and "qexp x \<le> a"
  shows "2 powi a \<le> round64 x"
  using grid_ge [of "2 ^ nat (a - qexp x)" x] assms p2_grid [OF assms(2)]
  by (simp add: quantum_qexp)

lemma round64_mono_pos:
  assumes "0 < x" and "x \<le> y"
  shows "round64 x \<le> round64 y"
proof -
  have y: "0 < y" using assms by linarith
  define ex where "ex = max (ilog2 x) (- 1022)"
  define ey where "ey = max (ilog2 y) (- 1022)"
  have qx: "qexp x = ex - 52" using assms(1) by (simp add: qexp_def ex_def)
  have qy: "qexp y = ey - 52" using y by (simp add: qexp_def ey_def)
  have le: "ex \<le> ey" using ilog2_mono [OF assms] by (simp add: ex_def ey_def)
  show ?thesis
  proof (cases "ex = ey")
    case True
    then have q: "quantum y = quantum x" by (simp add: quantum_qexp qx qy)
    have "x / quantum x \<le> y / quantum x"
      using assms(2) quantum_pos [of x] by (simp add: divide_right_mono)
    then have "rne (x / quantum x) \<le> rne (y / quantum x)" by (rule rne_mono)
    then have "(of_int (rne (x / quantum x)) :: real) \<le> of_int (rne (y / quantum x))"
      by simp
    then have "of_int (rne (x / quantum x)) * quantum x
                 \<le> of_int (rne (y / quantum x)) * quantum x"
      using quantum_pos [of x] by (simp add: mult_right_mono)
    then show ?thesis using assms(1) y by (simp add: round64_def q)
  next
    case False
    then have lt: "ex < ey" using le by simp
    then have eyl: "ey = ilog2 y" by (auto simp: ey_def ex_def max_def split: if_splits)
    have "x < 2 powi (ilog2 x + 1)" using ilog2_bounds [OF assms(1)] by simp
    also have "\<dots> \<le> 2 powi (ex + 1)"
      by (rule power_int_increasing) (simp_all add: ex_def)
    finally have "x \<le> 2 powi (ex + 1)" by simp
    then have "round64 x \<le> 2 powi (ex + 1)"
      by (rule round64_le_p2) (simp add: qx)
    also have "(2::real) powi (ex + 1) \<le> 2 powi ey"
      using lt by (intro power_int_increasing) simp_all
    also have "(2::real) powi ey \<le> round64 y"
    proof (rule round64_ge_p2)
      show "2 powi ey \<le> y" using ilog2_bounds [OF y] by (simp add: eyl)
      show "qexp y \<le> ey" by (simp add: qy)
    qed
    finally show ?thesis .
  qed
qed

lemma round64_mono: "x \<le> y \<Longrightarrow> round64 x \<le> round64 y"
proof -
  assume xy: "x \<le> y"
  consider "0 < x" | "x \<le> 0" "0 \<le> y" | "y < 0" by linarith
  then show ?thesis
  proof cases
    case 1
    then show ?thesis using xy by (rule round64_mono_pos)
  next
    case 2
    then show ?thesis using round64_nonpos [of x] round64_nonneg [of y] by linarith
  next
    case 3
    then have "0 < - y" "- y \<le> - x" using xy by simp_all
    then have "round64 (- y) \<le> round64 (- x)" by (rule round64_mono_pos)
    then show ?thesis by (simp add: round64_minus)
  qed
qed

lemma round64_fix:
  assumes "y / quantum y = of_int m"
  shows "round64 y = y"
proof (cases "y = 0")
  case True
  then show ?thesis by (simp add: round64_def)
next
  case False
  have "of_int m * quantum y = y"
    using assms quantum_pos [of y] by (simp add: field_simps)
  then show ?thesis using False assms by (simp add: round64_def)
qed

lemma ilog2_less: "0 < y \<Longrightarrow> y < 2 powi b \<Longrightarrow> ilog2 y < b"
proof -
  assume y: "0 < y" and "y < 2 powi b"
  then have "(2::real) powi (ilog2 y) < 2 powi b" using ilog2_bounds [OF y] by linarith
  then show ?thesis by (rule p2_less_imp)
qed

lemma ilog2_ge: "0 < y \<Longrightarrow> 2 powi a \<le> y \<Longrightarrow> a \<le> ilog2 y"
proof -
  assume y: "0 < y" and "2 powi a \<le> y"
  then have "(2::real) powi a < 2 powi (ilog2 y + 1)" using ilog2_bounds [OF y] by linarith
  then have "a < ilog2 y + 1" by (rule p2_less_imp)
  then show ?thesis by simp
qed

lemma ilog2_p2: "ilog2 (2 powi e) = e"
  by (rule ilog2_unique) (simp_all add: p2_suc)

lemma round64_idem_pos:
  assumes "0 < x"
  shows "round64 (round64 x) = round64 x"
proof -
  define E where "E = max (ilog2 x) (- 1022)"
  define k where "k = rne (x / quantum x)"
  define y where "y = round64 x"
  have qx: "qexp x = E - 52" using assms by (simp add: qexp_def E_def)
  have q: "quantum x = 2 powi (E - 52)" by (simp add: quantum_qexp qx)
  have yk: "y = of_int k * quantum x" using assms by (simp add: y_def k_def round64_def)
  have y0: "0 \<le> y" unfolding y_def using assms by (intro round64_nonneg) simp
  have "x < 2 powi (ilog2 x + 1)" using ilog2_bounds [OF assms] by simp
  also have "\<dots> \<le> 2 powi (E + 1)" by (rule power_int_increasing) (simp_all add: E_def)
  finally have "x \<le> 2 powi (E + 1)" by simp
  then have ub: "y \<le> 2 powi (E + 1)"
    unfolding y_def by (rule round64_le_p2) (simp add: qx)
  show ?thesis
  proof (cases "y = 0")
    case True
    have "round64 y = y" unfolding True by (simp add: round64_def)
    then show ?thesis by (simp add: y_def)
  next
    case False
    then have ypos: "0 < y" using y0 by simp
    show ?thesis
    proof (cases "y = 2 powi (E + 1)")
      case True
      have "ilog2 y = E + 1" unfolding True by (rule ilog2_p2)
      moreover have "- 1022 \<le> E" by (simp add: E_def)
      ultimately have "qexp y = E + 1 - 52" using ypos by (simp add: qexp_def)
      then have qy: "quantum y = 2 powi (E + 1 - 52)" by (simp add: quantum_qexp)
      have "y / quantum y = y / 2 powi (E + 1 - 52)" by (simp only: qy)
      also have "\<dots> = 2 powi (E + 1) / 2 powi (E + 1 - 52)" by (simp only: True)
      also have "\<dots> = 2 powi 52" by (simp flip: power_int_diff)
      also have "\<dots> = of_int (2 ^ 52)" by simp
      finally have "round64 y = y" by (rule round64_fix)
      then show ?thesis by (simp add: y_def)
    next
      case False
      then have lt: "y < 2 powi (E + 1)" using ub by simp
      have upper: "ilog2 y \<le> E" using ilog2_less [OF ypos lt] by simp
      have "max (ilog2 y) (- 1022) = E"
      proof (cases "- 1022 \<le> ilog2 x")
        case True
        then have Ee: "E = ilog2 x" by (simp add: E_def)
        have "2 powi E \<le> x" using ilog2_bounds [OF assms] by (simp add: Ee)
        then have "2 powi E \<le> y"
          unfolding y_def by (rule round64_ge_p2) (simp add: qx)
        then have "E \<le> ilog2 y" by (rule ilog2_ge [OF ypos])
        with upper True Ee show ?thesis by simp
      next
        case False
        then have "E = - 1022" by (simp add: E_def)
        with upper show ?thesis by simp
      qed
      then have "qexp y = E - 52" using ypos by (simp add: qexp_def)
      then have qy: "quantum y = quantum x" by (simp add: quantum_qexp qx)
      have "y / quantum y = y / quantum x" by (simp only: qy)
      also have "\<dots> = of_int k"
        using quantum_pos [of x] by (simp add: yk)
      finally have "y / quantum y = of_int k" .
      then have "round64 y = y" by (rule round64_fix)
      then show ?thesis by (simp add: y_def)
    qed
  qed
qed

lemma round64_idem: "round64 (round64 x) = round64 x"
proof -
  consider "0 < x" | "x = 0" | "x < 0" by linarith
  then show ?thesis
  proof cases
    case 1
    then show ?thesis by (rule round64_idem_pos)
  next
    case 2
    then show ?thesis by (simp add: round64_def)
  next
    case 3
    then have "round64 (round64 (- x)) = round64 (- x)" by (intro round64_idem_pos) simp
    then show ?thesis by (simp add: round64_minus)
  qed
qed

section \<open>Properties of the colour ramp\<close>

lemma f64_exact: "is_f64 x \<Longrightarrow> f64 x = Fin x"
  by (simp add: f64_def is_f64_def Let_def)

lemma f64_nonneg: "0 \<le> x \<Longrightarrow> fle (Fin 0) (f64 x)"
proof -
  assume x: "0 \<le> x"
  have r: "0 \<le> round64 x" using x by (rule round64_nonneg)
  show ?thesis
  proof (cases "x = 0")
    case True
    then show ?thesis by (simp add: f64_def round64_def)
  next
    case False
    then show ?thesis using x r by (simp add: f64_def Let_def)
  qed
qed

lemma f64_cases:
  "f64 x = PosInf \<and> 0 < x \<or> f64 x = NegInf \<and> x \<le> 0
   \<or> f64 x = Fin (round64 x) \<and> is_f64 (round64 x)"
  by (simp add: f64_def Let_def is_f64_def round64_idem)

lemma fle_trans: "fle a b \<Longrightarrow> fle b c \<Longrightarrow> fle a c"
  by (cases a; cases b; cases c) simp_all

lemma fle_refl_upward: "upward t \<Longrightarrow> fle t t"
  by (cases t) simp_all

lemma fadd_upward:
  assumes "upward t" and "fle (Fin 0) p"
  shows "upward (fadd t p) \<and> fle t (fadd t p)"
proof (cases t)
  case (Fin x)
  then have rx: "round64 x = x" and bx: "\<bar>x\<bar> < 2 ^ 1024"
    using assms(1) by (simp_all add: is_f64_def)
  show ?thesis
  proof (cases p)
    case (Fin y)
    then have y: "0 \<le> y" using assms(2) by simp
    have ge: "x \<le> round64 (x + y)"
      using round64_mono [of x "x + y"] y rx by simp
    have eq: "fadd t p = f64 (x + y)" using \<open>t = Fin x\<close> Fin by simp
    from f64_cases [of "x + y"] show ?thesis
    proof (elim disjE conjE)
      assume "f64 (x + y) = PosInf"
      then show ?thesis using eq \<open>t = Fin x\<close> by simp
    next
      assume n: "f64 (x + y) = NegInf"
      then have "2 ^ 1024 \<le> \<bar>round64 (x + y)\<bar>"
        by (simp add: f64_def Let_def split: if_splits)
      moreover have "x + y \<le> 0" using n by (simp add: f64_def Let_def split: if_splits)
      then have "round64 (x + y) \<le> 0" by (rule round64_nonpos)
      ultimately have "round64 (x + y) \<le> - (2 ^ 1024)" by linarith
      then show ?thesis using ge bx by linarith
    next
      assume "f64 (x + y) = Fin (round64 (x + y))" and "is_f64 (round64 (x + y))"
      then show ?thesis using eq \<open>t = Fin x\<close> ge by simp
    qed
  next
    case PosInf
    then show ?thesis using \<open>t = Fin x\<close> by simp
  next
    case NegInf
    then show ?thesis using assms(2) by simp
  next
    case NaN
    then show ?thesis using assms(2) by simp
  qed
next
  case PosInf
  then show ?thesis using assms(2) by (cases p) simp_all
next
  case NegInf
  then show ?thesis using assms(1) by simp
next
  case NaN
  then show ?thesis using assms(1) by simp
qed

lemma fmul_by_nonneg: "fle (Fin 0) p \<Longrightarrow> 0 \<le> c \<Longrightarrow> fle (Fin 0) (fmul_by p c)"
  by (cases p) (simp_all add: f64_nonneg)

lemma fdiv_by_nonneg: "fle (Fin 0) p \<Longrightarrow> 0 \<le> c \<Longrightarrow> fle (Fin 0) (fdiv_by p c)"
  by (cases p) (simp_all add: f64_nonneg)

lemma round64_p2: "- 1022 \<le> e \<Longrightarrow> round64 (2 powi e) = 2 powi e"
proof -
  assume e: "- 1022 \<le> e"
  have "qexp (2 powi e) = e - 52" using e by (simp add: qexp_def ilog2_p2)
  then have "(2::real) powi e / quantum (2 powi e) = 2 powi 52"
    by (simp add: quantum_qexp flip: power_int_diff)
  also have "\<dots> = of_int (2 ^ 52)" by simp
  finally show ?thesis by (rule round64_fix)
qed

lemma half_finite:
  assumes "\<bar>x\<bar> < 2 ^ 1024"
  shows "f64 (x / 2) = Fin (round64 (x / 2))"
proof -
  have p: "(2::real) powi 1023 = 2 ^ 1023" by simp
  have r: "round64 (2 ^ 1023) = 2 ^ 1023" using round64_p2 [of 1023] by simp
  have "x / 2 \<le> 2 ^ 1023" "- (2 ^ 1023) \<le> x / 2" using assms by simp_all
  then have "round64 (x / 2) \<le> 2 ^ 1023" "- (2 ^ 1023) \<le> round64 (x / 2)"
    using round64_mono [of "x / 2" "2 ^ 1023"] round64_mono [of "- (2 ^ 1023)" "x / 2"] r
    by (simp_all add: round64_minus)
  then have "\<bar>round64 (x / 2)\<bar> < 2 ^ 1024" by simp
  then show ?thesis by (simp add: f64_def Let_def)
qed

lemma per_of_nonneg:
  assumes "\<bar>lo\<bar> < 2 ^ 1024" and "\<bar>hi\<bar> < 2 ^ 1024" and "lo \<le> hi"
  shows "fle (Fin 0) (per_of (Fin lo) (Fin hi))"
proof -
  have "round64 (lo / 2) \<le> round64 (hi / 2)" using assms(3) by (intro round64_mono) simp
  then have "fle (Fin 0) (f64 (round64 (hi / 2) + - round64 (lo / 2)))"
    by (intro f64_nonneg) simp
  then have "fle (Fin 0) (fsub (fdiv_by (Fin hi) 2) (fdiv_by (Fin lo) 2))"
    by (simp add: fsub_def half_finite [OF assms(1)] half_finite [OF assms(2)])
  then show ?thesis unfolding per_of_def by (rule fdiv_by_nonneg) simp
qed

lemma colorLoop_unfolded:
  "colorLoop per 0 t [] =
     [t,
      fadd t per,
      fadd (fadd (fadd t per) per) per,
      fadd (fadd (fadd (fadd t per) per) per) per,
      fadd (fadd (fadd (fadd (fadd (fadd t per) per) per) per) per) (fmul_by per 3),
      fadd (fadd (fadd (fadd (fadd (fadd (fadd (fadd t per) per) per) per) per) (fmul_by per 3)) per) (fmul_by per 2),
      fadd (fadd (fadd (fadd (fadd (fadd (fadd (fadd (fadd (fadd t per) per) per) per) per) (fmul_by per 3)) per) (fmul_by per 2)) per) (fmul_by per 2)]"
  by (simp add: colorLoop.simps Let_def)

lemma ramp_nondecreasing:
  assumes t: "upward t" and p: "fle (Fin 0) per"
  shows "successively fle (colorLoop per 0 t [])"
proof -
  have p3: "fle (Fin 0) (fmul_by per 3)" using p by (rule fmul_by_nonneg) simp
  have p2: "fle (Fin 0) (fmul_by per 2)" using p by (rule fmul_by_nonneg) simp
  define a1 where "a1 = fadd t per"
  define a2 where "a2 = fadd a1 per"
  define a3 where "a3 = fadd a2 per"
  define a4 where "a4 = fadd a3 per"
  define a5 where "a5 = fadd a4 per"
  define a8 where "a8 = fadd a5 (fmul_by per 3)"
  define a9 where "a9 = fadd a8 per"
  define a11 where "a11 = fadd a9 (fmul_by per 2)"
  define a12 where "a12 = fadd a11 per"
  define a14 where "a14 = fadd a12 (fmul_by per 2)"
  have s1: "upward a1 \<and> fle t a1" unfolding a1_def using t p by (rule fadd_upward)
  have s2: "upward a2 \<and> fle a1 a2" unfolding a2_def using s1 p by (intro fadd_upward) simp
  have s3: "upward a3 \<and> fle a2 a3" unfolding a3_def using s2 p by (intro fadd_upward) simp
  have s4: "upward a4 \<and> fle a3 a4" unfolding a4_def using s3 p by (intro fadd_upward) simp
  have s5: "upward a5 \<and> fle a4 a5" unfolding a5_def using s4 p by (intro fadd_upward) simp
  have s8: "upward a8 \<and> fle a5 a8" unfolding a8_def using s5 p3 by (intro fadd_upward) simp
  have s9: "upward a9 \<and> fle a8 a9" unfolding a9_def using s8 p by (intro fadd_upward) simp
  have s11: "upward a11 \<and> fle a9 a11"
    unfolding a11_def using s9 p2 by (intro fadd_upward) simp
  have s12: "upward a12 \<and> fle a11 a12"
    unfolding a12_def using s11 p by (intro fadd_upward) simp
  have s14: "upward a14 \<and> fle a12 a14"
    unfolding a14_def using s12 p2 by (intro fadd_upward) simp
  have "colorLoop per 0 t [] = [t, a1, a3, a4, a8, a11, a14]"
    unfolding colorLoop_unfolded a14_def a12_def a11_def a9_def a8_def a5_def a4_def a3_def
      a2_def a1_def ..
  moreover have "fle a1 a3" using s2 s3 fle_trans by blast
  moreover have "fle a4 a8" using s5 s8 fle_trans by blast
  moreover have "fle a8 a11" using s9 s11 fle_trans by blast
  moreover have "fle a11 a14" using s12 s14 fle_trans by blast
  ultimately show ?thesis using s1 s4 by simp
qed

lemmas f64_eval = f64_def round64_def quantum_def qexp_def rne_def ilog2.simps Let_def

lemma ramp_0_14:
  "mdeColorValues (Fin 0) (Fin 14) = [Fin 0, Fin 1, Fin 3, Fin 4, Fin 8, Fin 11, Fin 14]"
  by (simp add: mdeColorValues_def per_of_def fsub_def colorLoop_unfolded f64_eval)

lemma per_0_1: "per_of (Fin 0) (Fin 1) = Fin (2573485501354569 / 36028797018963968)"
  by (simp add: per_of_def fsub_def f64_eval)

lemma ramp_0_1:
  "mdeColorValues (Fin 0) (Fin 1) =
     [Fin 0,
      Fin (2573485501354569 / 36028797018963968),
      Fin (7720456504063707 / 36028797018963968),
      Fin (2573485501354569 / 9007199254740992),
      Fin (2573485501354569 / 4503599627370496),
      Fin (884635641090633 / 1125899906842624),
      Fin (4503599627370495 / 4503599627370496)]"
  unfolding mdeColorValues_def per_0_1 colorLoop_unfolded
  by (simp add: f64_eval)

lemma fadd_exact: "is_f64 z \<Longrightarrow> x + y = z \<Longrightarrow> fadd (Fin x) (Fin y) = Fin z"
  by (simp add: f64_exact)

lemma ramp_exact_values:
  assumes "ramp_exact lo hi"
  shows "mdeColorValues (Fin lo) (Fin hi) =
           map (\<lambda>k. Fin (lo + k * spec_step lo hi)) [0, 1, 3, 4, 8, 11, 14]"
proof -
  define p where "p = spec_step lo hi"
  have r: "is_f64 (hi / 2)" "is_f64 (lo / 2)" "is_f64 (hi / 2 - lo / 2)" "is_f64 p"
    "is_f64 (p * 3)" "is_f64 (p * 2)" "is_f64 (lo + p)" "is_f64 (lo + 2 * p)"
    "is_f64 (lo + 3 * p)" "is_f64 (lo + 4 * p)" "is_f64 (lo + 5 * p)" "is_f64 (lo + 8 * p)"
    "is_f64 (lo + 9 * p)" "is_f64 (lo + 11 * p)" "is_f64 (lo + 12 * p)"
    "is_f64 (lo + 14 * p)"
    using assms unfolding ramp_exact_def Let_def p_def by simp_all
  have h: "fdiv_by (Fin hi) 2 = Fin (hi / 2)" "fdiv_by (Fin lo) 2 = Fin (lo / 2)"
    using r(1,2) by (simp_all add: f64_exact)
  have d: "fsub (Fin (hi / 2)) (Fin (lo / 2)) = Fin (hi / 2 - lo / 2)"
    unfolding fsub_def fneg.simps using r(3) by (rule fadd_exact) simp
  have "fdiv_by (Fin (hi / 2 - lo / 2)) 7 = Fin p"
    using r(4) by (simp add: f64_exact p_def spec_step_def)
  then have per: "per_of (Fin lo) (Fin hi) = Fin p"
    unfolding per_of_def h d .
  have m3: "fmul_by (Fin p) 3 = Fin (p * 3)" using r(5) by (simp add: f64_exact)
  have m2: "fmul_by (Fin p) 2 = Fin (p * 2)" using r(6) by (simp add: f64_exact)
  have a1: "fadd (Fin lo) (Fin p) = Fin (lo + p)" using r(7) by (rule fadd_exact) simp
  have a2: "fadd (Fin (lo + p)) (Fin p) = Fin (lo + 2 * p)"
    using r(8) by (rule fadd_exact) simp
  have a3: "fadd (Fin (lo + 2 * p)) (Fin p) = Fin (lo + 3 * p)"
    using r(9) by (rule fadd_exact) simp
  have a4: "fadd (Fin (lo + 3 * p)) (Fin p) = Fin (lo + 4 * p)"
    using r(10) by (rule fadd_exact) simp
  have a5: "fadd (Fin (lo + 4 * p)) (Fin p) = Fin (lo + 5 * p)"
    using r(11) by (rule fadd_exact) simp
  have a8: "fadd (Fin (lo + 5 * p)) (Fin (p * 3)) = Fin (lo + 8 * p)"
    using r(12) by (rule fadd_exact) simp
  have a9: "fadd (Fin (lo + 8 * p)) (Fin p) = Fin (lo + 9 * p)"
    using r(13) by (rule fadd_exact) simp
  have a11: "fadd (Fin (lo + 9 * p)) (Fin (p * 2)) = Fin (lo + 11 * p)"
    using r(14) by (rule fadd_exact) simp
  have a12: "fadd (Fin (lo + 11 * p)) (Fin p) = Fin (lo + 12 * p)"
    using r(15) by (rule fadd_exact) simp
  have a14: "fadd (Fin (lo + 12 * p)) (Fin (p * 2)) = Fin (lo + 14 * p)"
    using r(16) by (rule fadd_exact) simp
  have "mdeColorValues (Fin lo) (Fin hi) =
          [Fin lo, Fin (lo + p), Fin (lo + 3 * p), Fin (lo + 4 * p), Fin (lo + 8 * p),
           Fin (lo + 11 * p), Fin (lo + 14 * p)]"
    unfolding mdeColorValues_def per colorLoop_unfolded m3 m2 a1 a2 a3 a4 a5 a8 a9 a11 a12 a14
    ..
  then show ?thesis by (simp add: p_def)
qed

lemma is_f64_small:
  "is_f64 0" "is_f64 1" "is_f64 2" "is_f64 3" "is_f64 4" "is_f64 5" "is_f64 7" "is_f64 8"
  "is_f64 9" "is_f64 11" "is_f64 12" "is_f64 14"
  by (simp_all add: is_f64_def f64_eval)

lemma ramp_exact_0_14: "ramp_exact 0 14"
  by (simp add: ramp_exact_def spec_step_def is_f64_small)

lemma transp_fle: "transp fle"
  by (rule transpI) (rule fle_trans)

lemma mdeColorValues_length: "length (mdeColorValues lo hi) = 7"
  by (simp add: mdeColorValues_def colorLoop_unfolded)

lemma mdeColorValues_hd: "hd (mdeColorValues lo hi) = lo \<and> mdeColorValues lo hi ! 0 = lo"
  by (simp add: mdeColorValues_def colorLoop_unfolded)

lemma spec_breakpoints_0_1:
  "spec_breakpoints 0 1 = [0, 1 / 14, 3 / 14, 4 / 14, 8 / 14, 11 / 14, 1]"
  by (simp add: spec_breakpoints_def spec_step_def)

text \<open>
  C1, as the program has it. The ramp has exactly seven breakpoints, and two percentiles
  that are not NaN raise nothing. The first breakpoint is \<open>trimmedMin\<close>; the others are
  reached by adding the step 1, 3, 4, 5, 9 and 12 times and its triple or double in
  between, every addition rounded to a double: the offsets 0, 1, 3, 4, 8, 11 and 14
  steps hold up to that rounding. Where no operation rounds, the breakpoints are exactly
  \<open>trimmedMin + k * step\<close> with \<open>step = ((trimmedMax/2) - (trimmedMin/2)) / 7\<close>; for
  \<open>trimmedMin = 0\<close> and \<open>trimmedMax = 14\<close> they are 0, 1, 3, 4, 8, 11, 14.
\<close>

theorem C1_breakpoints:
  "length (mdeColorValues trimmedMin trimmedMax) = 7
   \<and> (\<not> isnan trimmedMin \<and> \<not> isnan trimmedMax \<longrightarrow>
        getMdeColorValues_from trimmedMin trimmedMax
          = Inr (mdeColorValues trimmedMin trimmedMax))
   \<and> mdeColorValues trimmedMin trimmedMax
       = colorLoop (per_of trimmedMin trimmedMax) 0 trimmedMin []
   \<and> colorLoop per 0 t [] =
       [t,
        fadd t per,
        fadd (fadd (fadd t per) per) per,
        fadd (fadd (fadd (fadd t per) per) per) per,
        fadd (fadd (fadd (fadd (fadd (fadd t per) per) per) per) per) (fmul_by per 3),
        fadd (fadd (fadd (fadd (fadd (fadd (fadd (fadd t per) per) per) per) per)
          (fmul_by per 3)) per) (fmul_by per 2),
        fadd (fadd (fadd (fadd (fadd (fadd (fadd (fadd (fadd (fadd t per) per) per) per)
          per) (fmul_by per 3)) per) (fmul_by per 2)) per) (fmul_by per 2)]
   \<and> (ramp_exact lo hi \<longrightarrow>
        mdeColorValues (Fin lo) (Fin hi) = map Fin (spec_breakpoints lo hi))
   \<and> mdeColorValues (Fin 0) (Fin 14) = map Fin [0, 1, 3, 4, 8, 11, 14]"
proof -
  have e: "mdeColorValues (Fin lo) (Fin hi) = map Fin (spec_breakpoints lo hi)"
    if "ramp_exact lo hi"
    using ramp_exact_values [OF that] by (simp add: spec_breakpoints_def)
  have g: "getMdeColorValues_from trimmedMin trimmedMax
             = Inr (mdeColorValues trimmedMin trimmedMax)"
    if "\<not> isnan trimmedMin \<and> \<not> isnan trimmedMax"
    using that by (simp add: getMdeColorValues_from_def)
  have i: "mdeColorValues (Fin 0) (Fin 14) = map Fin [0, 1, 3, 4, 8, 11, 14]"
    using ramp_0_14 by simp
  have u: "colorLoop per 0 t [] =
       [t,
        fadd t per,
        fadd (fadd (fadd t per) per) per,
        fadd (fadd (fadd (fadd t per) per) per) per,
        fadd (fadd (fadd (fadd (fadd (fadd t per) per) per) per) per) (fmul_by per 3),
        fadd (fadd (fadd (fadd (fadd (fadd (fadd (fadd t per) per) per) per) per)
          (fmul_by per 3)) per) (fmul_by per 2),
        fadd (fadd (fadd (fadd (fadd (fadd (fadd (fadd (fadd (fadd t per) per) per) per)
          per) (fmul_by per 3)) per) (fmul_by per 2)) per) (fmul_by per 2)]"
    by (rule colorLoop_unfolded)
  have d: "mdeColorValues trimmedMin trimmedMax
             = colorLoop (per_of trimmedMin trimmedMax) 0 trimmedMin []"
    by (rule mdeColorValues_def)
  from mdeColorValues_length [of trimmedMin trimmedMax] g d u e i
  show ?thesis by blast
qed

theorem C1_breakpoints_witness:
  "\<not> isnan (Fin 0) \<and> \<not> isnan (Fin 14) \<and> ramp_exact 0 14
   \<and> getMdeColorValues_from (Fin 0) (Fin 14) = Inr (map Fin [0, 1, 3, 4, 8, 11, 14])
   \<and> mdeColorValues (Fin 0) (Fin 14) = map Fin (spec_breakpoints 0 14)
   \<and> length (mdeColorValues (Fin 0) (Fin 14)) = 7"
proof -
  note c1 = C1_breakpoints [where trimmedMin = "Fin 0" and trimmedMax = "Fin 14"
      and per = "Fin 1" and t = "Fin 0" and lo = 0 and hi = 14]
  have n: "\<not> isnan (Fin 0) \<and> \<not> isnan (Fin 14)" by simp
  from c1 have l: "length (mdeColorValues (Fin 0) (Fin 14)) = 7" by blast
  from c1 n have g: "getMdeColorValues_from (Fin 0) (Fin 14)
                       = Inr (mdeColorValues (Fin 0) (Fin 14))" by blast
  from c1 ramp_exact_0_14
  have e: "mdeColorValues (Fin 0) (Fin 14) = map Fin (spec_breakpoints 0 14)" by blast
  from c1 have i: "mdeColorValues (Fin 0) (Fin 14) = map Fin [0, 1, 3, 4, 8, 11, 14]"
    by blast
  from n ramp_exact_0_14 g [unfolded i] e l show ?thesis
    by (intro conjI) simp_all
qed

text \<open>
  C1, as the specification has it, fails for \<open>trimmedMin = 0\<close> and \<open>trimmedMax = 1\<close>:
  the step is the double next to 1/14, the breakpoint of index 5 is
  0.7857142857142856 and the last one 0.9999999999999998, neither is \<open>11 * step\<close> or
  \<open>14 * step\<close>, for the exact step as for the rounded one.
\<close>

theorem C1_offsets_counterexample:
  "mdeColorValues (Fin 0) (Fin 1) \<noteq> map Fin (spec_breakpoints 0 1)
   \<and> mdeColorValues (Fin 0) (Fin 1) ! 5 = Fin (884635641090633 / 1125899906842624)
   \<and> spec_breakpoints 0 1 ! 5 = 11 / 14
   \<and> per_of (Fin 0) (Fin 1) = Fin (2573485501354569 / 36028797018963968)
   \<and> (884635641090633 / 1125899906842624 :: real)
       \<noteq> 0 + 11 * (2573485501354569 / 36028797018963968)
   \<and> mdeColorValues (Fin 0) (Fin 1) ! 6 = Fin (4503599627370495 / 4503599627370496)
   \<and> (4503599627370495 / 4503599627370496 :: real)
       \<noteq> 0 + 14 * (2573485501354569 / 36028797018963968)"
  by (simp add: ramp_0_1 spec_breakpoints_0_1 per_0_1)

text \<open>
  C10, as the program has it. For doubles \<open>trimmedMin \<le> trimmedMax\<close> the seven
  breakpoints are non-decreasing and the first is \<open>trimmedMin\<close>. The last is
  \<open>trimmedMin\<close> with fourteen steps added in rounded additions: it is \<open>trimmedMax\<close> where
  no operation rounds, and only close to it otherwise.
\<close>

theorem C10_ramp_spans_range:
  assumes "is_f64 trimmedMin" and "is_f64 trimmedMax" and "trimmedMin \<le> trimmedMax"
  shows "successively fle (mdeColorValues (Fin trimmedMin) (Fin trimmedMax))
       \<and> sorted_wrt fle (mdeColorValues (Fin trimmedMin) (Fin trimmedMax))
       \<and> hd (mdeColorValues (Fin trimmedMin) (Fin trimmedMax)) = Fin trimmedMin
       \<and> mdeColorValues (Fin trimmedMin) (Fin trimmedMax) ! 0 = Fin trimmedMin
       \<and> (ramp_exact trimmedMin trimmedMax \<longrightarrow>
            last (mdeColorValues (Fin trimmedMin) (Fin trimmedMax)) = Fin trimmedMax)"
proof -
  have lo: "\<bar>trimmedMin\<bar> < 2 ^ 1024" and hi: "\<bar>trimmedMax\<bar> < 2 ^ 1024"
    using assms(1,2) by (simp_all add: is_f64_def)
  have p: "fle (Fin 0) (per_of (Fin trimmedMin) (Fin trimmedMax))"
    using lo hi assms(3) by (rule per_of_nonneg)
  have u: "upward (Fin trimmedMin)" using assms(1) by simp
  have s: "successively fle (mdeColorValues (Fin trimmedMin) (Fin trimmedMax))"
    unfolding mdeColorValues_def using u p by (rule ramp_nondecreasing)
  then have w: "sorted_wrt fle (mdeColorValues (Fin trimmedMin) (Fin trimmedMax))"
    using successively_conv_sorted_wrt [OF transp_fle] by blast
  have e: "last (mdeColorValues (Fin trimmedMin) (Fin trimmedMax)) = Fin trimmedMax"
    if "ramp_exact trimmedMin trimmedMax"
  proof -
    have "trimmedMin + 14 * spec_step trimmedMin trimmedMax = trimmedMax"
      by (simp add: spec_step_def field_simps)
    then show ?thesis using ramp_exact_values [OF that] by simp
  qed
  show ?thesis using s w e mdeColorValues_hd by blast
qed

theorem C10_ramp_spans_range_witness:
  "is_f64 0 \<and> is_f64 14 \<and> (0::real) \<le> 14 \<and> ramp_exact 0 14
   \<and> sorted_wrt fle (mdeColorValues (Fin 0) (Fin 14))
   \<and> hd (mdeColorValues (Fin 0) (Fin 14)) = Fin 0
   \<and> last (mdeColorValues (Fin 0) (Fin 14)) = Fin 14"
  using C10_ramp_spans_range [of 0 14] ramp_exact_0_14 is_f64_small by simp

text \<open>
  C10, as the specification has it, fails for \<open>trimmedMin = 0\<close> and \<open>trimmedMax = 1\<close>:
  the last breakpoint is 0.9999999999999998, below \<open>trimmedMax\<close>.
\<close>

theorem C10_last_counterexample:
  "is_f64 0 \<and> is_f64 1 \<and> (0::real) \<le> 1
   \<and> last (mdeColorValues (Fin 0) (Fin 1)) = Fin (4503599627370495 / 4503599627370496)
   \<and> last (mdeColorValues (Fin 0) (Fin 1)) \<noteq> Fin 1"
  by (simp add: ramp_0_1 is_f64_small)

section \<open>Properties of the hillshade gamma step\<close>

lemma uint8_half: "uint8 (real n / 2) = word_of_nat (n div 2)"
proof -
  have "\<lfloor>real n / real 2\<rfloor> = int (n div 2)"
    by (rule floor_divide_of_nat_eq)
  then have "\<lfloor>real n / 2\<rfloor> = int (n div 2)" by simp
  then show ?thesis by (simp add: uint8_def)
qed

text \<open>
  C4, as the program has it. For every hillshade pixel (a value from 0 to 255) the gamma
  step yields the pixel halved with the fraction dropped: the cast \<open>uint8\<close> cuts, it does
  not round.
\<close>

theorem C4_gamma_truncates:
  "gammaHillshade A = A div 2 \<and> unat (gammaHillshade A) = unat A div 2"
proof -
  have "(real (unat A) / 255 * (0.5)) * 255 = real (unat A) / 2" by simp
  then have "gammaHillshade A = word_of_nat (unat A div 2)"
    unfolding gammaHillshade_def by (simp only: uint8_half)
  moreover have "word_of_nat (unat A div 2) = A div 2"
  proof -
    have "unat A div 2 < 2 ^ 8" using unsigned_less [of A, where ?'a = nat] by simp
    then have "unat (word_of_nat (unat A div 2) :: 8 word) = unat A div 2"
      by (simp add: unat_of_nat)
    then show ?thesis by (simp add: word_unat_eq_iff unat_div)
  qed
  ultimately show ?thesis by (simp add: unat_div)
qed

text \<open>
  C4, as the specification has it, fails at the pixel 255: the program yields 127, and
  \<open>round(255/255 \<times> 0.5 \<times> 255) = round(127.5)\<close> is 128, with ties to even as with ties
  upwards.
\<close>

theorem C4_round_counterexample:
  "uint (gammaHillshade 255) = 127 \<and> spec_gamma 255 = 128
   \<and> round (real (unat (255 :: 8 word)) / 255 * 0.5 * 255) = (128 :: int)
   \<and> uint (gammaHillshade 255) \<noteq> spec_gamma 255"
  by (simp add: gammaHillshade_def uint8_def spec_gamma_def py_round_def round_def Let_def)

section \<open>Properties of the string operations\<close>

lemma split_from_hd:
  "hd (split_from c cs acc s) = rev acc @ before_first (c # cs) s"
  by (induction s arbitrary: acc) auto

lemma split_from_nonempty: "split_from c cs acc s \<noteq> []"
  by (induction s arbitrary: acc) auto

lemma py_split_first:
  "sep \<noteq> [] \<Longrightarrow> bindE (py_split s sep) (\<lambda>parts. py_nth parts 0) = Inr (before_first sep s)"
  by (cases sep)
     (simp_all add: py_split_def bindE_def py_nth_def split_from_nonempty split_from_hd
        hd_conv_nth [symmetric])

lemma py_split_first_then:
  "sep \<noteq> [] \<Longrightarrow>
   bindE (py_split s sep) (\<lambda>parts. bindE (py_nth parts 0) k) = k (before_first sep s)"
  by (cases sep)
     (simp_all add: py_split_def bindE_def py_nth_def split_from_nonempty split_from_hd
        hd_conv_nth [symmetric])

lemma before_first_char: "before_first [c] s = takeWhile (\<lambda>x. x \<noteq> c) s"
  by (induction s) auto

lemma cleanFilename_takeWhile:
  "cleanFilename s = Inr (takeWhile (\<lambda>c. c \<noteq> CHR ''-'') s)"
  unfolding cleanFilename_def by (simp add: py_split_first before_first_char)

lemma before_first_absent: "\<not> py_in sep s \<Longrightarrow> before_first sep s = s"
  by (induction s) auto

lemma py_in_empty: "py_in [] s"
  by (cases s) auto

lemma hexdigit_in: "n < 16 \<Longrightarrow> hexdigit n \<in> set ''0123456789abcdef''"
  unfolding hexdigit_def by (rule nth_mem) simp

lemma nibble_less: "unat ((w :: 48 word) AND 15) < 16"
proof -
  have "w AND 15 \<le> 15" by (rule word_and_le1)
  then have "unat (w AND 15) \<le> unat (15 :: 48 word)" by (simp add: word_le_nat_alt)
  then show ?thesis by simp
qed

lemma token_hex6_hex12: "is_hex12 (token_hex6 w)"
proof -
  have len: "length (token_hex6 w) = 12" by (simp add: token_hex6_def)
  have "\<forall>c \<in> set (token_hex6 w). c \<in> set ''0123456789abcdef''"
    unfolding token_hex6_def set_map by (blast intro: hexdigit_in nibble_less)
  then have "list_all (\<lambda>c. c \<in> set ''0123456789abcdef'') (token_hex6 w)"
    unfolding list_all_iff .
  with len show ?thesis unfolding is_hex12_def by blast
qed

lemma tok_a: "token_hex6 0x0123456789ab = ''0123456789ab''"
  by (simp add: token_hex6_def hexdigit_def)

lemma tok_b: "token_hex6 0xffeeddccbbaa = ''ffeeddccbbaa''"
  by (simp add: token_hex6_def hexdigit_def)

lemmas removeExtension_eval =
  removeExtension_def splitext_def rfind_def skip_leading_dots.simps

section \<open>Properties of the identifiers\<close>

lemma resolveIds_fallback_ortho:
  "\<not> py_in (filename_prefix p) file \<Longrightarrow>
   resolveIds p file False rnd = Inr (token_hex6 rnd, spec_registryId file)"
  by (simp add: resolveIds_def bindE_def cleanFilename_takeWhile spec_registryId_def)

lemma resolveIds_fallback_mde:
  assumes "\<not> py_in (filename_prefix p) file" and "filename_suffix p \<noteq> []"
  shows "resolveIds p file True rnd =
           Inr (token_hex6 rnd, spec_registryId (before_first (filename_suffix p) file))"
proof -
  have "bindE (py_split file (filename_suffix p))
          (\<lambda>a. bindE (py_nth a 0) (\<lambda>b. cleanFilename (removeExtension b)))
        = cleanFilename (removeExtension (before_first (filename_suffix p) file))"
    using assms(2) by (rule py_split_first_then)
  then show ?thesis
    using assms(1)
    by (simp add: resolveIds_def cleanFilename_takeWhile spec_registryId_def)
       (simp add: bindE_def)
qed

text \<open>
  C3, as the program has it. For a file name without the prefix marker the map id is a
  token of twelve hexadecimal digits. The registry id of an orthomosaic is the file name
  with its extension stripped, cut at the first dash. For an elevation raster (and a
  suffix marker that is not empty) the file name is first cut at the first occurrence of
  the suffix marker, then stripped of its extension and cut at the first dash; this is
  the same text when the file name does not contain the suffix marker.
\<close>

theorem C3_fallback_ids:
  assumes "\<not> py_in (filename_prefix p) file"
  shows "resolveIds p file False rnd = Inr (token_hex6 rnd, spec_registryId file)
       \<and> (filename_suffix p \<noteq> [] \<longrightarrow>
            resolveIds p file True rnd =
              Inr (token_hex6 rnd, spec_registryId (before_first (filename_suffix p) file)))
       \<and> (\<not> py_in (filename_suffix p) file \<longrightarrow>
            resolveIds p file True rnd = Inr (token_hex6 rnd, spec_registryId file))
       \<and> is_hex12 (token_hex6 rnd)"
proof -
  have absent: "resolveIds p file True rnd = Inr (token_hex6 rnd, spec_registryId file)"
    if "\<not> py_in (filename_suffix p) file"
  proof -
    from that have "filename_suffix p \<noteq> []" using py_in_empty by auto
    with assms that show ?thesis
      by (simp add: resolveIds_fallback_mde before_first_absent)
  qed
  show ?thesis
    using assms absent
    by (simp add: resolveIds_fallback_ortho resolveIds_fallback_mde token_hex6_hex12)
qed

theorem C3_fallback_ids_witness:
  "\<not> py_in (filename_prefix example_params) ''1234-2.tif''
   \<and> filename_suffix example_params \<noteq> []
   \<and> \<not> py_in (filename_suffix example_params) ''1234-2.tif''
   \<and> resolveIds example_params ''1234-2.tif'' False 0x0123456789ab
       = Inr (''0123456789ab'', ''1234'')
   \<and> resolveIds example_params ''1234-2.tif'' True 0x0123456789ab
       = Inr (''0123456789ab'', ''1234'')
   \<and> is_hex12 ''0123456789ab''"
  using C3_fallback_ids [of example_params "''1234-2.tif''" "0x0123456789ab"]
  by (simp add: example_params_def tok_a spec_registryId_def removeExtension_eval)

text \<open>
  C3, as the specification has it, fails for the elevation raster \<open>terrain_mde.tif\<close>
  under the markers \<open>_ortho_\<close> and \<open>_mde\<close>: the file name has no prefix marker, the
  program's registry id is \<open>terrain\<close>, and the file name with its extension stripped and
  cut at the first dash is \<open>terrain_mde\<close>.
\<close>

theorem C3_elevation_counterexample:
  "\<not> py_in (filename_prefix example_params) ''terrain_mde.tif''
   \<and> resolveIds example_params ''terrain_mde.tif'' True 0x0123456789ab
       = Inr (''0123456789ab'', ''terrain'')
   \<and> spec_registryId ''terrain_mde.tif'' = ''terrain_mde''
   \<and> resolveIds example_params ''terrain_mde.tif'' True 0x0123456789ab
       \<noteq> Inr (token_hex6 0x0123456789ab, spec_registryId ''terrain_mde.tif'')"
proof -
  have r: "resolveIds example_params ''terrain_mde.tif'' True 0x0123456789ab
             = Inr (''0123456789ab'', ''terrain'')"
    by (simp add: resolveIds_def example_params_def py_split_def py_nth_def bindE_def
          cleanFilename_def tok_a removeExtension_eval)
  have s: "spec_registryId ''terrain_mde.tif'' = ''terrain_mde''"
    by (simp add: spec_registryId_def removeExtension_eval)
  have n: "\<not> py_in (filename_prefix example_params) ''terrain_mde.tif''"
    by (simp add: example_params_def)
  show ?thesis using r s n by (simp add: tok_a)
qed

section \<open>Properties of the per-file state\<close>

lemma GetRasterBand_last:
  "bands file_ds \<noteq> [] \<Longrightarrow>
   GetRasterBand file_ds (length (bands file_ds)) = Inr (last (bands file_ds))"
  by (simp add: GetRasterBand_def last_conv_nth Suc_le_eq)

lemma getDate_no_tags:
  "metadataItems file_ds ''acquisitionStartDate'' = None \<Longrightarrow>
   metadataItems file_ds ''TIFFTAG_DATETIME'' = None \<Longrightarrow>
   getDate strptime file_ds = Inr None"
  by (simp add: getDate_def)

lemma processFile_fields:
  assumes "processFile strptime p st file file_ds rnd = Inr (self, st')"
  shows "bandas self = length (bands file_ds)"
    and "isMDE self = (length (bands file_ds) \<le> 2)"
    and "GetRasterBand file_ds (length (bands file_ds)) = Inr b \<Longrightarrow>
           readNoDataValue b = Inr (noDataValue self)"
    and "getDate strptime file_ds = Inr (date self)"
    and "extra_metadata self = metadata p"
  using assms unfolding processFile_def bindE_def Let_def
  by (auto split: sum.splits option.splits prod.splits)

lemma processFile_raster:
  assumes "processFile strptime p st file file_ds rnd = Inr (self, st')"
  shows "bands file_ds \<noteq> []"
    and "tieneCanalAlfa self = (band_colorInterpretation (last (bands file_ds)) = 6)"
    and "readNoDataValue (last (bands file_ds)) = Inr (noDataValue self)"
    and "authority_code file_ds = Some (epsg self)"
proof -
  show ne: "bands file_ds \<noteq> []"
    using assms unfolding processFile_def bindE_def Let_def GetRasterBand_def
    by (auto split: sum.splits if_splits)
  have g: "GetRasterBand file_ds (length (bands file_ds)) = Inr (last (bands file_ds))"
    using ne by (rule GetRasterBand_last)
  show "tieneCanalAlfa self = (band_colorInterpretation (last (bands file_ds)) = 6)"
    using assms unfolding processFile_def bindE_def Let_def g
    by (auto split: sum.splits option.splits prod.splits)
  show "readNoDataValue (last (bands file_ds)) = Inr (noDataValue self)"
    using processFile_fields(3) [OF assms g] .
  show "authority_code file_ds = Some (epsg self)"
    using assms unfolding processFile_def bindE_def Let_def g
    by (auto split: sum.splits option.splits prod.splits)
qed

lemma processFile_succeeds:
  assumes "bands file_ds \<noteq> []"
    and "band_noDataValue (last (bands file_ds)) = Some v"
    and "resolveIds p file (length (bands file_ds) \<le> 2) rnd = Inr (mid, rid)"
    and "authority_code file_ds = Some c"
    and "getDate strptime file_ds = Inr d"
  shows "\<exists>self. processFile strptime p st file file_ds rnd
                  = Inr (self, st(metadata p := st (metadata p)
                                     @ [''registroId='' @ rid, ''mapId='' @ mid]))
               \<and> isMDE self = (length (bands file_ds) \<le> 2)
               \<and> extra_metadata self = metadata p"
  unfolding processFile_def
  by (simp add: GetRasterBand_last [OF assms(1)] readNoDataValue_def assms(2-5)
        bindE_def Let_def)

lemma ids_rgba:
  "resolveIds example_params ''REG42_ortho_mapA.tif'' False 0 = Inr (''mapA'', ''REG42'')"
  by (simp add: resolveIds_def example_params_def py_split_def py_nth_def bindE_def
      removeExtension_eval)

lemma run_rgba:
  "processFile no_strptime example_params (\<lambda>a. []) ''REG42_ortho_mapA.tif'' rgba_raster 0 =
     Inr (rgba_self, (\<lambda>a. [])(0 := [''registroId=REG42'', ''mapId=mapA'']))"
  unfolding processFile_def
  by (simp add: ids_rgba bindE_def GetRasterBand_def readNoDataValue_def getDate_def
      rgba_raster_def mk_dataset_def mk_band_def rgba_self_def Let_def)
     (simp add: example_params_def fun_eq_iff)

lemma ids_terrain:
  "resolveIds example_params ''terrain.tif'' True 0x0123456789ab
     = Inr (''0123456789ab'', ''terrain'')"
  by (simp add: resolveIds_def example_params_def py_split_def py_nth_def bindE_def
      cleanFilename_def tok_a removeExtension_eval)

lemma run_nan:
  "processFile no_strptime example_params (\<lambda>a. []) ''terrain.tif'' nan_raster 0x0123456789ab =
     Inr (terrain_self, (\<lambda>a. [])(0 := [''registroId=terrain'', ''mapId=0123456789ab'']))"
  unfolding processFile_def
  by (simp add: ids_terrain bindE_def GetRasterBand_def readNoDataValue_def getDate_def
      nan_raster_def mk_dataset_def mk_band_def terrain_self_def Let_def)
     (simp add: example_params_def fun_eq_iff)

text \<open>
  C9. Whatever the configuration, a file is an elevation raster exactly when its raster
  has at most two bands: one or two bands give an elevation raster, three or four an
  orthomosaic.
\<close>

theorem C9_classification:
  assumes "processFile strptime p st file file_ds rnd = Inr (self, st')"
  shows "isMDE self = (length (bands file_ds) \<le> 2)
       \<and> (length (bands file_ds) \<in> {1, 2} \<longrightarrow> isMDE self)
       \<and> (length (bands file_ds) \<in> {3, 4} \<longrightarrow> \<not> isMDE self)"
  using processFile_fields(2) [OF assms] by auto

theorem C9_classification_witness:
  "processFile no_strptime example_params (\<lambda>a. []) ''REG42_ortho_mapA.tif'' rgba_raster 0
     = Inr (rgba_self, (\<lambda>a. [])(0 := [''registroId=REG42'', ''mapId=mapA'']))
   \<and> length (bands rgba_raster) \<in> {3, 4}
   \<and> \<not> (length (bands rgba_raster) \<le> 2)
   \<and> \<not> isMDE rgba_self"
  using C9_classification [OF run_rgba] run_rgba
  by (simp add: rgba_raster_def mk_dataset_def)

text \<open>
  C5. When the last band of a raster declares no nodata value (the read yields \<open>None\<close>),
  the per-file processing stops with a type error at the NaN check.
\<close>

theorem C5_missing_nodata_raises:
  assumes "bands file_ds \<noteq> []"
    and "band_noDataValue (last (bands file_ds)) = None"
  shows "processFile strptime p st file file_ds rnd = Inl TypeError"
proof -
  have "GetRasterBand file_ds (length (bands file_ds)) = Inr (last (bands file_ds))"
    using assms(1) by (rule GetRasterBand_last)
  moreover have "readNoDataValue (last (bands file_ds)) = Inl TypeError"
    using assms(2) by (simp add: readNoDataValue_def)
  ultimately show ?thesis by (simp add: processFile_def bindE_def Let_def)
qed

theorem C5_missing_nodata_raises_witness:
  "bands unset_nodata_raster \<noteq> []
   \<and> band_noDataValue (last (bands unset_nodata_raster)) = None
   \<and> processFile no_strptime example_params (\<lambda>a. []) ''terrain.tif'' unset_nodata_raster 0
       = Inl TypeError"
  using C5_missing_nodata_raises
          [of unset_nodata_raster no_strptime example_params "\<lambda>a. []" "''terrain.tif''" 0]
  by (simp add: unset_nodata_raster_def mk_dataset_def mk_band_def)

text \<open>
  C6. When the last band declares a NaN nodata value, the nodata value of the file is 0
  and the NaN check raises nothing; when a raster has neither the tag
  \<open>acquisitionStartDate\<close> nor the tag \<open>TIFFTAG_DATETIME\<close>, its date is \<open>None\<close> and
  reading the date raises nothing. With both, and identifiers and an authority code that
  resolve, the per-file processing succeeds.
\<close>

theorem C6_silent_normalisation:
  "(bands file_ds \<noteq> [] \<and> band_noDataValue (last (bands file_ds)) = Some NaN \<longrightarrow>
      bindE (GetRasterBand file_ds (length (bands file_ds))) readNoDataValue = Inr (Fin 0)
      \<and> (\<forall>self st'. processFile strptime p st file file_ds rnd = Inr (self, st')
            \<longrightarrow> noDataValue self = Fin 0))
   \<and> (metadataItems file_ds ''acquisitionStartDate'' = None
      \<and> metadataItems file_ds ''TIFFTAG_DATETIME'' = None \<longrightarrow>
      getDate strptime file_ds = Inr None
      \<and> (\<forall>self st'. processFile strptime p st file file_ds rnd = Inr (self, st')
            \<longrightarrow> date self = None))
   \<and> (bands file_ds \<noteq> [] \<and> band_noDataValue (last (bands file_ds)) = Some NaN
      \<and> metadataItems file_ds ''acquisitionStartDate'' = None
      \<and> metadataItems file_ds ''TIFFTAG_DATETIME'' = None
      \<and> \<not> isl (resolveIds p file (length (bands file_ds) \<le> 2) rnd)
      \<and> authority_code file_ds \<noteq> None \<longrightarrow>
      (\<exists>self st'. processFile strptime p st file file_ds rnd = Inr (self, st')
          \<and> noDataValue self = Fin 0 \<and> date self = None))"
proof -
  have nodata: "bindE (GetRasterBand file_ds (length (bands file_ds))) readNoDataValue
                  = Inr (Fin 0)"
    if "bands file_ds \<noteq> []" and "band_noDataValue (last (bands file_ds)) = Some NaN"
    using that by (simp add: GetRasterBand_last bindE_def readNoDataValue_def)
  have nodata_self: "noDataValue self = Fin 0"
    if "bands file_ds \<noteq> []" and "band_noDataValue (last (bands file_ds)) = Some NaN"
      and run: "processFile strptime p st file file_ds rnd = Inr (self, st')"
    for self st'
  proof -
    have "readNoDataValue (last (bands file_ds)) = Inr (noDataValue self)"
      using processFile_fields(3) [OF run] GetRasterBand_last [OF that(1)] by simp
    then show ?thesis using that(2) by (simp add: readNoDataValue_def)
  qed
  have date_self: "date self = None"
    if "metadataItems file_ds ''acquisitionStartDate'' = None"
      and "metadataItems file_ds ''TIFFTAG_DATETIME'' = None"
      and run: "processFile strptime p st file file_ds rnd = Inr (self, st')"
    for self st'
    using processFile_fields(4) [OF run] getDate_no_tags [OF that(1) that(2), of strptime]
    by simp
  have succeeds: "\<exists>self st'. processFile strptime p st file file_ds rnd = Inr (self, st')"
    if h1: "bands file_ds \<noteq> []"
      and h2: "band_noDataValue (last (bands file_ds)) = Some NaN"
      and h3: "metadataItems file_ds ''acquisitionStartDate'' = None"
      and h4: "metadataItems file_ds ''TIFFTAG_DATETIME'' = None"
      and h5: "\<not> isl (resolveIds p file (length (bands file_ds) \<le> 2) rnd)"
      and h6: "authority_code file_ds \<noteq> None"
  proof -
    obtain mid rid where ids:
      "resolveIds p file (length (bands file_ds) \<le> 2) rnd = Inr (mid, rid)"
      using h5 by (cases "resolveIds p file (length (bands file_ds) \<le> 2) rnd") auto
    obtain c where code: "authority_code file_ds = Some c"
      using h6 by auto
    show ?thesis
      unfolding processFile_def
      by (simp add: GetRasterBand_last [OF h1] readNoDataValue_def h2 ids code
            getDate_no_tags [OF h3 h4] bindE_def Let_def)
  qed
  show ?thesis
    using nodata nodata_self date_self succeeds getDate_no_tags [of file_ds strptime]
    by blast
qed

theorem C6_silent_normalisation_witness:
  "bands nan_raster \<noteq> [] \<and> band_noDataValue (last (bands nan_raster)) = Some NaN
   \<and> metadataItems nan_raster ''acquisitionStartDate'' = None
   \<and> metadataItems nan_raster ''TIFFTAG_DATETIME'' = None
   \<and> \<not> isl (resolveIds example_params ''terrain.tif'' (length (bands nan_raster) \<le> 2)
               0x0123456789ab)
   \<and> authority_code nan_raster \<noteq> None
   \<and> bindE (GetRasterBand nan_raster (length (bands nan_raster))) readNoDataValue
       = Inr (Fin 0)
   \<and> getDate no_strptime nan_raster = Inr None
   \<and> (\<exists>self st'. processFile no_strptime example_params (\<lambda>a. []) ''terrain.tif'' nan_raster
                      0x0123456789ab = Inr (self, st')
          \<and> noDataValue self = Fin 0 \<and> date self = None)"
proof -
  have b: "bands nan_raster \<noteq> [] \<and> band_noDataValue (last (bands nan_raster)) = Some NaN
           \<and> metadataItems nan_raster ''acquisitionStartDate'' = None
           \<and> metadataItems nan_raster ''TIFFTAG_DATETIME'' = None
           \<and> authority_code nan_raster \<noteq> None \<and> length (bands nan_raster) \<le> 2"
    by (simp add: nan_raster_def mk_dataset_def mk_band_def)
  have i: "\<not> isl (resolveIds example_params ''terrain.tif'' (length (bands nan_raster) \<le> 2)
                   0x0123456789ab)"
    using b by (simp add: ids_terrain)
  show ?thesis
    using b i
      C6_silent_normalisation
        [of nan_raster no_strptime example_params "\<lambda>a. []" "''terrain.tif''" "0x0123456789ab"]
    by blast
qed

section \<open>Properties of the exports\<close>

lemma exportOutline_at_most_one:
  "exportOutline g p self r = Inr fs \<Longrightarrow> length fs \<le> 1"
  unfolding exportOutline_def bindE_def Let_def
  by (auto split: if_splits sum.splits)

lemma exportOutline_returns:
  assumes "ImportFromEPSG g (geoserver_epsg p) = 0"
    and "4 \<le> length (bands (raster_source r))"
  shows "\<not> isl (exportOutline g p self r)"
  using assms unfolding exportOutline_def bindE_def Let_def GetRasterBand_def
  by simp

lemma storage_no_reprojection:
  "filter is_reprojection (fst (exportStorageFiles p st self file_ds)) = []"
  unfolding exportStorageFiles_def exportStoragePreview_def Let_def
  by (simp add: resample_args_def split: sum.splits prod.splits)

lemma storage_warps:
  "filter is_warp (fst (exportStorageFiles p st self file_ds))
     = (if storage_previews p \<and> isMDE self then [Warp ''mde_compress.tif'' resample_args]
        else [])"
  unfolding exportStorageFiles_def exportStoragePreview_def Let_def
  by (simp split: sum.splits prod.splits)

lemma storage_no_outline:
  "filter is_outline (fst (exportStorageFiles p st self file_ds)) = []"
  unfolding exportStorageFiles_def exportStoragePreview_def Let_def
  by (simp split: sum.splits prod.splits)

lemma storage_outline_features:
  "outline_features (fst (exportStorageFiles p st self file_ds)) = []"
  unfolding exportStorageFiles_def exportStoragePreview_def Let_def outline_features_def
  by (simp split: sum.splits prod.splits)

lemma storage_tags:
  "stamped_tags (fst (exportStorageFiles p st self file_ds)) = [st (extra_metadata self)]"
  unfolding exportStorageFiles_def exportStoragePreview_def Let_def stamped_tags_def
  by (simp split: sum.splits prod.splits)

lemma storage_ortho_returns:
  "\<not> isMDE self \<Longrightarrow> snd (exportStorageFiles p st self file_ds) = None"
  unfolding exportStorageFiles_def exportStoragePreview_def Let_def
  by simp

lemma geoserver_warps:
  "filter is_warp (fst (exportGeoserverFiles g p st self file_ds file))
     = (if warp_needed p self then [Warp file (warp_args p self)] else [])"
  unfolding exportGeoserverFiles_def Let_def
  by (simp split: sum.splits)

lemma geoserver_reprojections:
  "filter is_reprojection (fst (exportGeoserverFiles g p st self file_ds file))
     = (if warp_needed p self then [Warp file (warp_args p self)] else [])"
  unfolding exportGeoserverFiles_def Let_def
  by (simp add: warp_args_def split: sum.splits)

lemma geoserver_outline_features:
  "length (outline_features (fst (exportGeoserverFiles g p st self file_ds file))) \<le> 1"
  unfolding exportGeoserverFiles_def Let_def outline_features_def
  by (auto split: sum.splits dest: exportOutline_at_most_one)

lemma geoserver_outline_calls:
  "length (filter is_outline (fst (exportGeoserverFiles g p st self file_ds file))) \<le> 1"
  unfolding exportGeoserverFiles_def Let_def
  by (simp split: sum.splits)

lemma geoserver_mde_no_outline:
  "isMDE self \<Longrightarrow>
   filter is_outline (fst (exportGeoserverFiles g p st self file_ds file)) = []"
  unfolding exportGeoserverFiles_def Let_def
  by simp

lemma geoserver_tags:
  "snd (exportGeoserverFiles g p st self file_ds file) = None \<Longrightarrow>
   stamped_tags (fst (exportGeoserverFiles g p st self file_ds file))
     = [st (extra_metadata self)]"
  unfolding exportGeoserverFiles_def Let_def stamped_tags_def
  by (cases "warp_needed p self") (auto split: sum.splits if_splits)

lemma geoserver_returns:
  assumes "ImportFromEPSG g (geoserver_epsg p) = 0" and "4 \<le> length (bands file_ds)"
  shows "snd (exportGeoserverFiles g p st self file_ds file) = None"
proof -
  have "\<not> isl (exportOutline g p self
                (if warp_needed p self then Warped file_ds (warp_args p self)
                 else Opened file_ds))"
    using assms by (intro exportOutline_returns) simp_all
  then show ?thesis
    unfolding exportGeoserverFiles_def Let_def
    by (cases "warp_needed p self") (auto split: sum.splits)
qed

lemma stamped_tags_append: "stamped_tags (a @ b) = stamped_tags a @ stamped_tags b"
  by (simp add: stamped_tags_def)

lemma outline_features_append:
  "outline_features (a @ b) = outline_features a @ outline_features b"
  by (simp add: outline_features_def)

lemma ids_terrain_mercator:
  "resolveIds example_params ''terrain.tif'' (length (bands mercator_raster) \<le> 2)
     0x0123456789ab = Inr (''0123456789ab'', ''terrain'')"
  using ids_terrain by (simp add: mercator_raster_def mk_dataset_def)

lemma run_mercator:
  "\<exists>self st'. processFile no_strptime example_params (\<lambda>a. []) ''terrain.tif'' mercator_raster
                  0x0123456789ab = Inr (self, st')"
proof -
  have b: "bands mercator_raster \<noteq> []"
    "band_noDataValue (last (bands mercator_raster)) = Some (Fin (- 9999))"
    "authority_code mercator_raster = Some 3857"
    "getDate no_strptime mercator_raster = Inr None"
    by (simp_all add: mercator_raster_def mk_dataset_def mk_band_def getDate_def)
  from processFile_succeeds [OF b(1) b(2) ids_terrain_mercator b(3) b(4), of "\<lambda>a. []"]
  show ?thesis by blast
qed

text \<open>
  C7. For a file that lines 92-148 have processed, the tile-server export warps the
  raster into another reference system exactly when the EPSG code of the raster differs
  from the configured one, and then once, from the code of the raster to the configured
  one; the source nodata of that warp is \<open>'none'\<close> when the last band of the raster is an
  alpha band, and otherwise the nodata value read from the raster (its declared value,
  with NaN read as 0). The storage export never reprojects: its only warp is the
  resampling for the preview of an elevation raster.
\<close>

theorem C7_reprojection:
  assumes "processFile strptime p st fname file_ds rnd = Inr (self, st')"
  shows "filter is_reprojection (fst (exportGeoserverFiles g p st' self file_ds fname))
           = (if authority_code file_ds \<noteq> Some (geoserver_epsg p)
              then [Warp fname (warp_args p self)] else [])
       \<and> filter is_reprojection
            (fst (exportStorageFiles p st' self file_ds)
             @ fst (exportGeoserverFiles g p st' self file_ds fname))
           = (if authority_code file_ds \<noteq> Some (geoserver_epsg p)
              then [Warp fname (warp_args p self)] else [])
       \<and> srcSRS (warp_args p self) = authority_code file_ds
       \<and> dstSRS (warp_args p self) = Some (geoserver_epsg p)
       \<and> srcNodata (warp_args p self)
           = Some (if band_colorInterpretation (last (bands file_ds)) = 6 then NoneStr
                   else NoDataVal (noDataValue self))
       \<and> readNoDataValue (last (bands file_ds)) = Inr (noDataValue self)
       \<and> (\<forall>v. band_noDataValue (last (bands file_ds)) = Some v \<and> \<not> isnan v
              \<longrightarrow> noDataValue self = v)
       \<and> (band_noDataValue (last (bands file_ds)) = Some NaN \<longrightarrow> noDataValue self = Fin 0)"
proof -
  note r = processFile_raster [OF assms]
  have w: "warp_needed p self = (authority_code file_ds \<noteq> Some (geoserver_epsg p))"
    using r(4) by (auto simp: warp_needed_def)
  have g: "filter is_reprojection (fst (exportGeoserverFiles g p st' self file_ds fname))
             = (if authority_code file_ds \<noteq> Some (geoserver_epsg p)
                then [Warp fname (warp_args p self)] else [])"
    unfolding geoserver_reprojections w ..
  have s: "filter is_reprojection
             (fst (exportStorageFiles p st' self file_ds)
              @ fst (exportGeoserverFiles g p st' self file_ds fname))
           = (if authority_code file_ds \<noteq> Some (geoserver_epsg p)
              then [Warp fname (warp_args p self)] else [])"
    by (simp only: filter_append storage_no_reprojection g append_Nil)
  have a: "srcSRS (warp_args p self) = authority_code file_ds
           \<and> dstSRS (warp_args p self) = Some (geoserver_epsg p)
           \<and> srcNodata (warp_args p self)
               = Some (if band_colorInterpretation (last (bands file_ds)) = 6 then NoneStr
                       else NoDataVal (noDataValue self))"
    using r(2) r(4) by (simp add: warp_args_def)
  have v: "\<forall>v. band_noDataValue (last (bands file_ds)) = Some v \<and> \<not> isnan v
               \<longrightarrow> noDataValue self = v"
    using r(3) by (auto simp: readNoDataValue_def)
  have n: "band_noDataValue (last (bands file_ds)) = Some NaN \<longrightarrow> noDataValue self = Fin 0"
    using r(3) by (auto simp: readNoDataValue_def)
  from g s a r(3) v n show ?thesis by blast
qed

theorem C7_reprojection_witness:
  "processFile no_strptime example_params (\<lambda>a. []) ''REG42_ortho_mapA.tif'' rgba_raster 0
     = Inr (rgba_self, (\<lambda>a. [])(0 := [''registroId=REG42'', ''mapId=mapA'']))
   \<and> authority_code rgba_raster = Some 4326 \<and> geoserver_epsg example_params = 3857
   \<and> band_colorInterpretation (last (bands rgba_raster)) = 6
   \<and> band_noDataValue (last (bands rgba_raster)) = Some (Fin 0) \<and> \<not> isnan (Fin 0)
   \<and> filter is_reprojection
        (fst (exportGeoserverFiles unit_ogr example_params
                ((\<lambda>a. [])(0 := [''registroId=REG42'', ''mapId=mapA'']))
                rgba_self rgba_raster ''REG42_ortho_mapA.tif''))
       = [Warp ''REG42_ortho_mapA.tif''
            \<lparr> warp_xRes = 20 / 100, warp_yRes = 20 / 100, srcSRS = Some 4326,
              dstSRS = Some 3857, srcNodata = Some NoneStr \<rparr>]
   \<and> authority_code mercator_raster = Some (geoserver_epsg example_params)
   \<and> (\<exists>self st'. processFile no_strptime example_params (\<lambda>a. []) ''terrain.tif''
                     mercator_raster 0x0123456789ab = Inr (self, st')
          \<and> filter is_reprojection
               (fst (exportGeoserverFiles unit_ogr example_params st' self mercator_raster
                       ''terrain.tif'')) = []
          \<and> noDataValue self = Fin (- 9999))
   \<and> band_noDataValue (last (bands nan_raster)) = Some NaN
   \<and> processFile no_strptime example_params (\<lambda>a. []) ''terrain.tif'' nan_raster
         0x0123456789ab
       = Inr (terrain_self, (\<lambda>a. [])(0 := [''registroId=terrain'', ''mapId=0123456789ab'']))
   \<and> srcNodata (warp_args example_params terrain_self) = Some (NoDataVal (Fin 0))"
proof -
  have b: "authority_code rgba_raster = Some 4326 \<and> geoserver_epsg example_params = 3857
           \<and> band_colorInterpretation (last (bands rgba_raster)) = 6
           \<and> band_noDataValue (last (bands rgba_raster)) = Some (Fin 0)"
    by (simp add: rgba_raster_def mk_dataset_def mk_band_def example_params_def)
  have wa: "warp_args example_params rgba_self
              = \<lparr> warp_xRes = 20 / 100, warp_yRes = 20 / 100, srcSRS = Some 4326,
                  dstSRS = Some 3857, srcNodata = Some NoneStr \<rparr>"
    by (simp add: warp_args_def example_params_def rgba_self_def)
  have one: "filter is_reprojection
        (fst (exportGeoserverFiles unit_ogr example_params
                ((\<lambda>a. [])(0 := [''registroId=REG42'', ''mapId=mapA'']))
                rgba_self rgba_raster ''REG42_ortho_mapA.tif''))
       = [Warp ''REG42_ortho_mapA.tif'' (warp_args example_params rgba_self)]"
    using C7_reprojection [OF run_rgba, of unit_ogr] b by simp
  have m: "authority_code mercator_raster = Some (geoserver_epsg example_params)
           \<and> band_noDataValue (last (bands mercator_raster)) = Some (Fin (- 9999))"
    by (simp add: mercator_raster_def mk_dataset_def mk_band_def example_params_def)
  obtain self st' where run:
    "processFile no_strptime example_params (\<lambda>a. []) ''terrain.tif'' mercator_raster
       0x0123456789ab = Inr (self, st')"
    using run_mercator by blast
  have none: "filter is_reprojection
               (fst (exportGeoserverFiles unit_ogr example_params st' self mercator_raster
                       ''terrain.tif'')) = []
              \<and> noDataValue self = Fin (- 9999)"
    using C7_reprojection [OF run, of unit_ogr] m by simp
  have k: "band_noDataValue (last (bands nan_raster)) = Some NaN
           \<and> band_colorInterpretation (last (bands nan_raster)) \<noteq> 6"
    by (simp add: nan_raster_def mk_dataset_def mk_band_def)
  have z: "srcNodata (warp_args example_params terrain_self) = Some (NoDataVal (Fin 0))"
    using C7_reprojection [OF run_nan, of unit_ogr] k by simp
  show ?thesis
    using run_rgba b one wa m run none k z run_nan by auto
qed

lemma processTifs_outline_features:
  "\<forall>c \<in> set done. length (outline_features c) \<le> 1 \<Longrightarrow>
   \<forall>c \<in> set (fst (snd (processTifs strptime (g :: 'g ogr) p files v st done))).
     length (outline_features c) \<le> 1"
proof (induction files arbitrary: v st "done")
  case Nil
  then show ?case by simp
next
  case (Cons f files)
  have one: "length (outline_features (fst (exportStorageFiles p st1 self d)
                @ fst (exportGeoserverFiles g p st1 self d (file_name f)))) \<le> 1"
    for st1 self d
    using geoserver_outline_features [of g p st1 self d "file_name f"]
    by (simp add: outline_features_append storage_outline_features)
  have none: "length (outline_features
                (fst (exportStorageFiles p st1 self d) :: 'g gdal_call list)) \<le> 1"
    for st1 self d
    by (simp add: storage_outline_features)
  show ?case
  proof (cases "bindE (open_file f v) read_file_ds")
    case (Inl e)
    then show ?thesis using Cons.prems by simp
  next
    case (Inr d)
    note opened = this
    show ?thesis
    proof (cases "processFile strptime p st (file_name f) d (file_random f)")
      case (Inl e)
      then show ?thesis using Cons.prems opened by simp
    next
      case (Inr r)
      obtain self st1 where r: "r = (self, st1)" by (cases r)
      obtain storage es
        where s: "(exportStorageFiles p st1 self d :: 'g gdal_call list \<times> error option)
                    = (storage, es)"
        by (meson surj_pair)
      obtain geoserver eg
        where gs: "exportGeoserverFiles g p st1 self d (file_name f) = (geoserver, eg)"
        by (meson surj_pair)
      have s1: "length (outline_features storage) \<le> 1"
        using none [of st1 self d] s by simp
      have s2: "length (outline_features (storage @ geoserver)) \<le> 1"
        using one [of st1 self d] s gs by simp
      show ?thesis
      proof (cases es)
        case (Some e)
        then show ?thesis using Cons.prems opened Inr r s s1 by simp
      next
        case None
        note es_none = this
        show ?thesis
        proof (cases eg)
          case (Some e)
          then show ?thesis using Cons.prems opened Inr r s gs es_none s2 by simp
        next
          case None
          have "\<forall>c \<in> set (done @ [storage @ geoserver]). length (outline_features c) \<le> 1"
            using Cons.prems s2 by simp
          from Cons.IH [OF this]
          show ?thesis using opened Inr r s gs es_none None by simp
        qed
      qed
    qed
  qed
qed

lemma geoserver_rgba:
  "outline_features
     (fst (exportGeoserverFiles unit_ogr example_params st rgba_self rgba_raster
             ''REG42_ortho_mapA.tif''))
   = [\<lparr> geometry = (), field_map_id = ''mapA'', field_registro_id = ''REG42'',
        field_date = None \<rparr>]"
proof -
  have w: "warp_needed example_params rgba_self"
    by (simp add: warp_needed_def example_params_def rgba_self_def)
  have e: "outlines_enabled example_params \<and> \<not> isMDE rgba_self"
    by (simp add: example_params_def rgba_self_def)
  have o: "exportOutline unit_ogr example_params rgba_self (Warped rgba_raster kw)
     = Inr [\<lparr> geometry = (), field_map_id = ''mapA'', field_registro_id = ''REG42'',
        field_date = None \<rparr>]" for kw
    by (simp add: exportOutline_def unit_ogr_def example_params_def GetRasterBand_def
          rgba_raster_def mk_dataset_def bindE_def rgba_self_def)
  show ?thesis
    unfolding exportGeoserverFiles_def Let_def
    by (simp add: w e o outline_features_def)
qed

text \<open>
  C8. The outline export of a file writes at most one feature, it runs at most once per
  file, and it does not run for an elevation raster (a raster with at most two bands);
  the storage export never runs it.
\<close>

theorem C8_outline:
  "length (outline_features (fst (exportGeoserverFiles g p st self file_ds fname))) \<le> 1
   \<and> length (filter is_outline (fst (exportGeoserverFiles g p st self file_ds fname))) \<le> 1
   \<and> (isMDE self \<longrightarrow>
        filter is_outline (fst (exportGeoserverFiles g p st self file_ds fname)) = [])
   \<and> filter is_outline (fst (exportStorageFiles p st self file_ds) :: 'g gdal_call list) = []
   \<and> (\<forall>r fs. exportOutline g p self r = Inr fs \<longrightarrow> length fs \<le> 1)
   \<and> (\<forall>self' st'. processFile strptime p st fname file_ds rnd = Inr (self', st')
          \<and> length (bands file_ds) \<le> 2 \<longrightarrow>
        filter is_outline (fst (exportGeoserverFiles g p st' self' file_ds fname)) = [])
   \<and> (\<forall>calls \<in> set (fst (snd (processTifs strptime g p files Unbound st []))).
        length (outline_features calls) \<le> 1)"
proof -
  have mde: "filter is_outline (fst (exportGeoserverFiles g p st' self' file_ds fname)) = []"
    if "processFile strptime p st fname file_ds rnd = Inr (self', st')"
      and "length (bands file_ds) \<le> 2" for self' st'
    using processFile_fields(2) [OF that(1)] that(2) by (simp add: geoserver_mde_no_outline)
  have batch: "\<forall>calls \<in> set (fst (snd (processTifs strptime g p files Unbound st []))).
                 length (outline_features calls) \<le> 1"
    by (rule processTifs_outline_features) simp
  have one: "\<forall>r fs. exportOutline g p self r = Inr fs \<longrightarrow> length fs \<le> 1"
    using exportOutline_at_most_one [of g p self] by blast
  have stor: "filter is_outline (fst (exportStorageFiles p st self file_ds) :: 'g gdal_call list)
                = []"
    by (rule storage_no_outline)
  have nomde: "isMDE self \<longrightarrow>
                 filter is_outline (fst (exportGeoserverFiles g p st self file_ds fname)) = []"
    using geoserver_mde_no_outline by blast
  have mde': "\<forall>self' st'. processFile strptime p st fname file_ds rnd = Inr (self', st')
                  \<and> length (bands file_ds) \<le> 2 \<longrightarrow>
                filter is_outline (fst (exportGeoserverFiles g p st' self' file_ds fname)) = []"
    using mde by blast
  from geoserver_outline_features [of g p st self file_ds fname]
       geoserver_outline_calls [of g p st self file_ds fname] nomde stor one mde' batch
  show ?thesis by (intro conjI)
qed

section \<open>Properties of the batch\<close>

lemma processTifs_step:
  assumes "bindE (open_file f v) read_file_ds = Inr d"
    and "processFile strptime p st (file_name f) d (file_random f) = Inr (self, st1)"
    and "snd (exportStorageFiles p st1 self d :: 'g gdal_call list \<times> error option) = None"
    and "snd (exportGeoserverFiles (g :: 'g ogr) p st1 self d (file_name f)) = None"
  shows "processTifs strptime g p (f # files) v st acc
           = processTifs strptime g p files NoneVal st1
               (acc @ [fst (exportStorageFiles p st1 self d)
                        @ fst (exportGeoserverFiles g p st1 self d (file_name f))])"
proof -
  obtain storage where s: "exportStorageFiles p st1 self d = (storage :: 'g gdal_call list, None)"
    using assms(3) by (metis prod.collapse)
  obtain geoserver
    where gs: "exportGeoserverFiles g p st1 self d (file_name f) = (geoserver, None)"
    using assms(4) by (metis prod.collapse)
  show ?thesis
    by (simp add: assms(1) assms(2) s gs)
qed

lemma open_tif:
  "bindE (open_file file_a v) read_file_ds = Inr rgba_raster
   \<and> bindE (open_file file_b v) read_file_ds = Inr rgba_raster"
  by (simp add: open_file_def read_file_ds_def bindE_def file_a_def file_b_def
        endswith_def suffix_to_prefix)

lemma ids_a:
  "resolveIds example_params ''a.tif'' False 0x0123456789ab = Inr (''0123456789ab'', ''a'')"
  by (simp add: resolveIds_def example_params_def bindE_def cleanFilename_takeWhile tok_a
        removeExtension_eval)

lemma ids_b:
  "resolveIds example_params ''b.tif'' False 0xffeeddccbbaa = Inr (''ffeeddccbbaa'', ''b'')"
  by (simp add: resolveIds_def example_params_def bindE_def cleanFilename_takeWhile tok_b
        removeExtension_eval)

lemma rgba_facts:
  "bands rgba_raster \<noteq> [] \<and> band_noDataValue (last (bands rgba_raster)) = Some (Fin 0)
   \<and> \<not> length (bands rgba_raster) \<le> 2 \<and> 4 \<le> length (bands rgba_raster)
   \<and> authority_code rgba_raster = Some 4326
   \<and> getDate no_strptime rgba_raster = Inr None"
  by (simp add: rgba_raster_def mk_dataset_def mk_band_def getDate_def)

lemma run_tif:
  assumes "resolveIds example_params file False rnd = Inr (mid, rid)"
  shows "\<exists>self. processFile no_strptime example_params st file rgba_raster rnd
                  = Inr (self, st(0 := st 0 @ [''registroId='' @ rid, ''mapId='' @ mid]))
               \<and> \<not> isMDE self \<and> extra_metadata self = 0"
proof -
  have m: "metadata example_params = 0" by (simp add: example_params_def)
  have i: "resolveIds example_params file (length (bands rgba_raster) \<le> 2) rnd
             = Inr (mid, rid)"
    using assms rgba_facts by simp
  from processFile_succeeds [of rgba_raster "Fin 0" example_params "file" rnd mid rid 4326
         no_strptime None st] rgba_facts i
  show ?thesis by (simp add: m)
qed

lemma batch_one:
  assumes "bindE (open_file f v) read_file_ds = Inr rgba_raster"
    and "resolveIds example_params (file_name f) False (file_random f) = Inr (mid, rid)"
  shows "\<exists>calls. processTifs no_strptime unit_ogr example_params (f # files) v st acc
            = processTifs no_strptime unit_ogr example_params files NoneVal
                (st(0 := st 0 @ [''registroId='' @ rid, ''mapId='' @ mid])) (acc @ [calls])
          \<and> stamped_tags calls
              = [st 0 @ [''registroId='' @ rid, ''mapId='' @ mid],
                 st 0 @ [''registroId='' @ rid, ''mapId='' @ mid]]"
proof -
  let ?st1 = "st(0 := st 0 @ [''registroId='' @ rid, ''mapId='' @ mid])"
  obtain self where run:
    "processFile no_strptime example_params st (file_name f) rgba_raster (file_random f)
       = Inr (self, ?st1)"
    and ortho: "\<not> isMDE self" and ref: "extra_metadata self = 0"
    using run_tif [OF assms(2), of st] by blast
  have s: "snd (exportStorageFiles example_params ?st1 self rgba_raster
                  :: unit gdal_call list \<times> error option) = None"
    using ortho by (rule storage_ortho_returns)
  have gs: "snd (exportGeoserverFiles unit_ogr example_params ?st1 self rgba_raster
                   (file_name f)) = None"
    using rgba_facts by (intro geoserver_returns) (simp_all add: unit_ogr_def)
  have t1: "stamped_tags (fst (exportStorageFiles example_params ?st1 self rgba_raster
                                 :: unit gdal_call list \<times> error option))
              = [?st1 (extra_metadata self)]"
    by (rule storage_tags)
  have t2: "stamped_tags (fst (exportGeoserverFiles unit_ogr example_params ?st1 self
                                 rgba_raster (file_name f)))
              = [?st1 (extra_metadata self)]"
    using gs by (rule geoserver_tags)
  have "stamped_tags (fst (exportStorageFiles example_params ?st1 self rgba_raster
                             :: unit gdal_call list \<times> error option)
                      @ fst (exportGeoserverFiles unit_ogr example_params ?st1 self
                               rgba_raster (file_name f)))
          = [?st1 0, ?st1 0]"
    unfolding stamped_tags_append t1 t2 ref by simp
  then show ?thesis
    using processTifs_step [OF assms(1) run s gs, where files = files and acc = acc]
    by auto
qed

text \<open>
  C2, on the batch of the two files \<open>a.tif\<close> and \<open>b.tif\<close> with an empty configured tag
  list: the rasters written for \<open>b.tif\<close> carry the two tags of \<open>a.tif\<close> in front of
  their own, while \<open>b.tif\<close> processed alone gets its own two tags only.
\<close>

theorem C2_tags_carry_over:
  "map stamped_tags
     (fst (snd (processTifs no_strptime unit_ogr example_params [file_a, file_b] Unbound
                  (\<lambda>a. []) [])))
     = [[[''registroId=a'', ''mapId=0123456789ab''],
         [''registroId=a'', ''mapId=0123456789ab'']],
        [[''registroId=a'', ''mapId=0123456789ab'', ''registroId=b'', ''mapId=ffeeddccbbaa''],
         [''registroId=a'', ''mapId=0123456789ab'', ''registroId=b'', ''mapId=ffeeddccbbaa'']]]
   \<and> map stamped_tags
     (fst (snd (processTifs no_strptime unit_ogr example_params [file_b] Unbound
                  (\<lambda>a. []) [])))
     = [[[''registroId=b'', ''mapId=ffeeddccbbaa''],
         [''registroId=b'', ''mapId=ffeeddccbbaa'']]]"
proof -
  have na: "file_name file_a = ''a.tif'' \<and> file_random file_a = 0x0123456789ab"
    by (simp add: file_a_def)
  have nb: "file_name file_b = ''b.tif'' \<and> file_random file_b = 0xffeeddccbbaa"
    by (simp add: file_b_def)
  have ia: "resolveIds example_params (file_name file_a) False (file_random file_a)
              = Inr (''0123456789ab'', ''a'')"
    using ids_a na by simp
  have ib: "resolveIds example_params (file_name file_b) False (file_random file_b)
              = Inr (''ffeeddccbbaa'', ''b'')"
    using ids_b nb by simp
  have oa: "bindE (open_file file_a v) read_file_ds = Inr rgba_raster" for v
    using open_tif by blast
  have ob: "bindE (open_file file_b v) read_file_ds = Inr rgba_raster" for v
    using open_tif by blast
  show ?thesis
  proof -
    obtain ca where a:
      "processTifs no_strptime unit_ogr example_params [file_a, file_b] Unbound (\<lambda>a. []) []
         = processTifs no_strptime unit_ogr example_params [file_b] NoneVal
             ((\<lambda>a. [])(0 := [] @ [''registroId='' @ ''a'', ''mapId='' @ ''0123456789ab'']))
             ([] @ [ca])"
      and ta: "stamped_tags ca
                 = [[] @ [''registroId='' @ ''a'', ''mapId='' @ ''0123456789ab''],
                    [] @ [''registroId='' @ ''a'', ''mapId='' @ ''0123456789ab'']]"
      using batch_one [OF oa ia, where files = "[file_b]" and st = "\<lambda>a. []" and acc = "[]"]
      by auto
    obtain cb where b:
      "processTifs no_strptime unit_ogr example_params [file_b] NoneVal
             ((\<lambda>a. [])(0 := [] @ [''registroId='' @ ''a'', ''mapId='' @ ''0123456789ab'']))
             ([] @ [ca])
         = processTifs no_strptime unit_ogr example_params [] NoneVal
             (((\<lambda>a. [])(0 := [] @ [''registroId='' @ ''a'', ''mapId='' @ ''0123456789ab'']))
                (0 := ((\<lambda>a. [])(0 := [] @ [''registroId='' @ ''a'',
                                             ''mapId='' @ ''0123456789ab''])) 0
                      @ [''registroId='' @ ''b'', ''mapId='' @ ''ffeeddccbbaa'']))
             (([] @ [ca]) @ [cb])"
      and tb: "stamped_tags cb
                 = [((\<lambda>a. [])(0 := [] @ [''registroId='' @ ''a'',
                                          ''mapId='' @ ''0123456789ab''])) 0
                      @ [''registroId='' @ ''b'', ''mapId='' @ ''ffeeddccbbaa''],
                    ((\<lambda>a. [])(0 := [] @ [''registroId='' @ ''a'',
                                          ''mapId='' @ ''0123456789ab''])) 0
                      @ [''registroId='' @ ''b'', ''mapId='' @ ''ffeeddccbbaa'']]"
      using batch_one [OF ob ib, where files = "[]"
              and st = "(\<lambda>a. [])(0 := [] @ [''registroId='' @ ''a'',
                                                ''mapId='' @ ''0123456789ab''])"
              and acc = "[] @ [ca]"] by auto
    obtain cb' where b':
      "processTifs no_strptime unit_ogr example_params [file_b] Unbound (\<lambda>a. []) []
         = processTifs no_strptime unit_ogr example_params [] NoneVal
             ((\<lambda>a. [])(0 := [] @ [''registroId='' @ ''b'', ''mapId='' @ ''ffeeddccbbaa'']))
             ([] @ [cb'])"
      and tb': "stamped_tags cb'
                 = [[] @ [''registroId='' @ ''b'', ''mapId='' @ ''ffeeddccbbaa''],
                    [] @ [''registroId='' @ ''b'', ''mapId='' @ ''ffeeddccbbaa'']]"
      using batch_one [OF ob ib, where files = "[]" and st = "\<lambda>a. []" and acc = "[]"]
      by auto
    show ?thesis
      unfolding a b b' by (simp add: ta tb tb')
  qed
qed

lemma batch_file_a:
  "\<exists>calls. processTifs no_strptime unit_ogr example_params [file_a] Unbound (\<lambda>a. []) []
            = ((\<lambda>a. [])(0 := [''registroId=a'', ''mapId=0123456789ab'']), [calls], None)"
proof -
  have ia: "resolveIds example_params (file_name file_a) False (file_random file_a)
              = Inr (''0123456789ab'', ''a'')"
    using ids_a by (simp add: file_a_def)
  have oa: "bindE (open_file file_a Unbound) read_file_ds = Inr rgba_raster"
    using open_tif by blast
  from batch_one [OF oa ia, where files = "[]" and st = "\<lambda>a. []" and acc = "[]"]
  show ?thesis by auto
qed

theorem C8_outline_witness:
  "isMDE terrain_self
   \<and> processFile no_strptime example_params (\<lambda>a. []) ''terrain.tif'' nan_raster 0x0123456789ab
       = Inr (terrain_self, (\<lambda>a. [])(0 := [''registroId=terrain'', ''mapId=0123456789ab'']))
   \<and> length (bands nan_raster) \<le> 2
   \<and> filter is_outline
        (fst (exportGeoserverFiles unit_ogr example_params
                ((\<lambda>a. [])(0 := [''registroId=terrain'', ''mapId=0123456789ab'']))
                terrain_self nan_raster ''terrain.tif'')) = []
   \<and> exportOutline unit_ogr example_params terrain_self (Opened rgba_raster)
       = Inr [\<lparr> geometry = (), field_map_id = ''0123456789ab'',
                 field_registro_id = ''terrain'', field_date = None \<rparr>]
   \<and> length (fst (snd (processTifs no_strptime unit_ogr example_params [file_a] Unbound
                         (\<lambda>a. []) []))) = 1
   \<and> length (outline_features
               (hd (fst (snd (processTifs no_strptime unit_ogr example_params [file_a]
                                Unbound (\<lambda>a. []) []))))) \<le> 1
   \<and> outline_features
        (fst (exportGeoserverFiles unit_ogr example_params (\<lambda>a. []) rgba_self rgba_raster
                ''REG42_ortho_mapA.tif''))
       = [\<lparr> geometry = (), field_map_id = ''mapA'', field_registro_id = ''REG42'',
            field_date = None \<rparr>]"
proof -
  have m: "isMDE terrain_self" by (simp add: terrain_self_def)
  have n: "length (bands nan_raster) \<le> 2" by (simp add: nan_raster_def mk_dataset_def)
  have o: "exportOutline unit_ogr example_params terrain_self (Opened rgba_raster)
             = Inr [\<lparr> geometry = (), field_map_id = ''0123456789ab'',
                       field_registro_id = ''terrain'', field_date = None \<rparr>]"
    by (simp add: exportOutline_def unit_ogr_def example_params_def GetRasterBand_def
          rgba_raster_def mk_dataset_def bindE_def terrain_self_def)
  obtain calls where b:
    "processTifs no_strptime unit_ogr example_params [file_a] Unbound (\<lambda>a. []) []
       = ((\<lambda>a. [])(0 := [''registroId=a'', ''mapId=0123456789ab'']), [calls], None)"
    using batch_file_a by blast
  note c8 = C8_outline [where g = unit_ogr and p = example_params and st = "\<lambda>a. []"
      and self = terrain_self and file_ds = nan_raster and fname = "''terrain.tif''"
      and strptime = no_strptime and rnd = "0x0123456789ab" and files = "[file_a]"]
  have g: "filter is_outline
        (fst (exportGeoserverFiles unit_ogr example_params
                ((\<lambda>a. [])(0 := [''registroId=terrain'', ''mapId=0123456789ab'']))
                terrain_self nan_raster ''terrain.tif'')) = []"
    using c8 run_nan n by blast
  have "calls \<in> set (fst (snd (processTifs no_strptime unit_ogr example_params [file_a]
                                   Unbound (\<lambda>a. []) [])))"
    unfolding b by simp
  with c8 have h: "length (outline_features calls) \<le> 1"
    by blast
  have l: "length (fst (snd (processTifs no_strptime unit_ogr example_params [file_a] Unbound
                         (\<lambda>a. []) []))) = 1
         \<and> hd (fst (snd (processTifs no_strptime unit_ogr example_params [file_a] Unbound
                         (\<lambda>a. []) []))) = calls"
    unfolding b by simp
  show ?thesis
    using m n o g h run_nan l geoserver_rgba [of "\<lambda>a. []"] by simp
qed


end
